theory Spec2Isabelle
  imports Main
begin

section \<open>Python values shared by both modules\<close>

text \<open>
  Exceptions are values. Every \<^verbatim>\<open>raise\<close> of the source, and every exception that a
  library call of the source lets through, is an \<open>Inl\<close> of the result type.
  \<open>PyException msg cause\<close> is the plain \<^verbatim>\<open>Exception(msg)\<close>; its second argument is the
  exception it was chained from (\<^verbatim>\<open>raise ... from e\<close>). \<open>OtherError cls msg\<close> stands for
  every exception class the source never names.
\<close>

datatype py_exc =
    ValueError string
  | TypeError string
  | AttributeError string
  | ModuleNotFoundError string
  | DbtRuntimeError "string option"
  | PyException string "py_exc option"
  | OtherError string string

fun is_ValueError :: "py_exc \<Rightarrow> bool" where
  "is_ValueError (ValueError _) = True"
| "is_ValueError _ = False"

fun is_ModuleNotFoundError :: "py_exc \<Rightarrow> bool" where
  "is_ModuleNotFoundError (ModuleNotFoundError _) = True"
| "is_ModuleNotFoundError _ = False"

fun is_DbtRuntimeError :: "py_exc \<Rightarrow> bool" where
  "is_DbtRuntimeError (DbtRuntimeError _) = True"
| "is_DbtRuntimeError _ = False"

fun is_TypeError :: "py_exc \<Rightarrow> bool" where
  "is_TypeError (TypeError _) = True"
| "is_TypeError _ = False"

subsection \<open>Strings\<close>

text \<open>
  A Python \<^verbatim>\<open>str\<close> is a list of code points; the model covers the code points below
  256. \<open>py_isspace\<close> is \<^verbatim>\<open>str.isspace\<close> on one character: the code points 9 to 13, 28 to
  32, 133 and 160.
\<close>

definition py_isspace :: "char \<Rightarrow> bool" where
  "py_isspace c =
     (let n = of_char c :: nat
      in (9 \<le> n \<and> n \<le> 13) \<or> (28 \<le> n \<and> n \<le> 32) \<or> n = 133 \<or> n = 160)"

text \<open>\<^verbatim>\<open>s.strip()\<close>: the whitespace at both ends is dropped.\<close>

definition py_strip :: "string \<Rightarrow> string" where
  "py_strip s = rev (dropWhile py_isspace (rev (dropWhile py_isspace s)))"

text \<open>
  \<^verbatim>\<open>s.rsplit(c, 1)\<close> for a string that contains \<open>c\<close>: the part before the last \<open>c\<close> and
  the part after it. (The source calls it only behind the test that \<open>c\<close> occurs.)
\<close>

definition py_rsplit1 :: "char \<Rightarrow> string \<Rightarrow> string \<times> string" where
  "py_rsplit1 c s =
     (let after = rev (takeWhile (\<lambda>x. x \<noteq> c) (rev s))
      in (take (length s - length after - 1) s, after))"

text \<open>\<^verbatim>\<open>s.split(c)\<close>: the pieces between the occurrences of \<open>c\<close>, empty pieces kept.\<close>

fun py_split :: "char \<Rightarrow> string \<Rightarrow> string list" where
  "py_split c [] = [[]]"
| "py_split c (x # xs) =
     (if x = c then [] # py_split c xs
      else (case py_split c xs of
              [] \<Rightarrow> [[x]]
            | w # ws \<Rightarrow> (x # w) # ws))"

section \<open>Module dbtcommon\<close>

definition DBT_CUSTOM_ADAPTER_VAR :: string where
  "DBT_CUSTOM_ADAPTER_VAR = ''dbt_custom_adapter''"

text \<open>
  The config object as \<open>get_custom_adapter_config_value\<close> reads it: the attribute
  \<^verbatim>\<open>cli_vars\<close>, a dictionary, and the attribute \<^verbatim>\<open>vars\<close>, read through \<^verbatim>\<open>to_dict()\<close>.
  \<open>None\<close> is an attribute the object does not have (\<^verbatim>\<open>hasattr\<close> is false). The values
  are strings, as the source annotates them.
\<close>

record adapter_config =
  cli_vars :: "(string \<rightharpoonup> string) option"
  vars :: "(string \<rightharpoonup> string) option"

text \<open>
  One of the two lookups of the source: the attribute exists, the key is in the
  dictionary, and the value passes \<^verbatim>\<open>v and v.strip()\<close>. \<open>None\<close> means that control falls
  through to the next statement.
\<close>

definition adapter_var_of :: "(string \<rightharpoonup> string) option \<Rightarrow> string option" where
  "adapter_var_of attr =
     (case attr of
        None \<Rightarrow> None
      | Some d \<Rightarrow>
          (case d DBT_CUSTOM_ADAPTER_VAR of
             None \<Rightarrow> None
           | Some custom_adapter_class_name \<Rightarrow>
               if custom_adapter_class_name \<noteq> [] \<and> py_strip custom_adapter_class_name \<noteq> []
               then Some custom_adapter_class_name
               else None))"

definition get_custom_adapter_config_value :: "adapter_config \<Rightarrow> string option" where
  "get_custom_adapter_config_value config =
     (case adapter_var_of (cli_vars config) of
        Some v \<Rightarrow> Some v
      | None \<Rightarrow>
          (case adapter_var_of (vars config) of
             Some v \<Rightarrow> Some v
           | None \<Rightarrow> None))"

text \<open>
  The words of the specification for the same function: a value is blank when it is
  empty or consists of whitespace only, and a blank value counts as absent.
\<close>

definition blank :: "string \<Rightarrow> bool" where
  "blank s = list_all py_isspace s"

definition present_nonblank :: "(string \<rightharpoonup> string) option \<Rightarrow> string option" where
  "present_nonblank attr =
     (case attr of
        None \<Rightarrow> None
      | Some d \<Rightarrow>
          (case d ''dbt_custom_adapter'' of
             None \<Rightarrow> None
           | Some v \<Rightarrow> if blank v then None else Some v))"

text \<open>
  A module is the dictionary of its attributes. \<open>get_custom_adapter_class_by_name\<close> takes
  the importer as a parameter: \<^verbatim>\<open>importlib.import_module\<close> returns a module or raises.
\<close>

type_synonym 'v py_module = "string \<rightharpoonup> 'v"

definition unexpected_adapter_msg :: "string \<Rightarrow> string" where
  "unexpected_adapter_msg n =
     ''Unexpected adapter class name: `'' @ n @
     ''` ,Expecting something like:`my.sample.library.MyAdapterClass`''"

definition adapter_module_not_found_msg :: "string \<Rightarrow> string" where
  "adapter_module_not_found_msg n = ''Module of provided adapter not found, provided: '' @ n"

definition py_getattr :: "'v py_module \<Rightarrow> string \<Rightarrow> py_exc + 'v" where
  "py_getattr m a =
     (case m a of
        None \<Rightarrow> Inl (AttributeError a)
      | Some v \<Rightarrow> Inr v)"

definition get_custom_adapter_class_by_name ::
  "(string \<Rightarrow> py_exc + 'v py_module) \<Rightarrow> string \<Rightarrow> py_exc + 'v" where
  "get_custom_adapter_class_by_name import_module custom_adapter_class_name =
     (if CHR ''.'' \<notin> set custom_adapter_class_name
      then Inl (ValueError (unexpected_adapter_msg custom_adapter_class_name))
      else
        (case py_rsplit1 CHR ''.'' custom_adapter_class_name of
           (module_name, class_name) \<Rightarrow>
             (case import_module module_name of
                Inl e \<Rightarrow>
                  if is_ModuleNotFoundError e
                  then Inl (PyException (adapter_module_not_found_msg custom_adapter_class_name)
                              (Some e))
                  else Inl e
              | Inr user_adapter_module \<Rightarrow> py_getattr user_adapter_module class_name)))"

text \<open>
  \<^verbatim>\<open>importlib.import_module\<close> of the Python standard library, over a table of the modules
  that can be imported: a name that starts with a dot is a relative import and raises
  \<^verbatim>\<open>TypeError\<close> (no package is given), the empty name raises \<^verbatim>\<open>ValueError\<close>, a name that
  is not in the table raises \<^verbatim>\<open>ModuleNotFoundError\<close>.
\<close>

definition import_module :: "(string \<rightharpoonup> 'v py_module) \<Rightarrow> string \<Rightarrow> py_exc + 'v py_module" where
  "import_module modules n =
     (case n of
        [] \<Rightarrow> Inl (ValueError ''Empty module name'')
      | c # _ \<Rightarrow>
          if c = CHR ''.''
          then Inl (TypeError ''the package argument is required to perform a relative import'')
          else (case modules n of
                  None \<Rightarrow> Inl (ModuleNotFoundError n)
                | Some m \<Rightarrow> Inr m))"

section \<open>Module opendbt: the logger\<close>

text \<open>
  The part of Python's \<^verbatim>\<open>logging\<close> module that \<open>OpenDbtLogger.log\<close> uses. The module
  keeps one \<^verbatim>\<open>Logger\<close> object per name, so a logger object is identified by its name.
  The logger \<^verbatim>\<open>opendbt\<close> has no dot in its name: its parent is the root logger.
\<close>

datatype handler = StreamHandler (stream: string) (formatter: string) (level: nat)

record logger =
  handlers :: "handler list"
  propagate :: bool

record logging =
  root :: logger
  loggers :: "string \<rightharpoonup> logger"

text \<open>\<^verbatim>\<open>logging.getLogger(name)\<close>: the logger of that name, created on first use.\<close>

definition getLogger :: "string \<Rightarrow> logging \<Rightarrow> string \<times> logging" where
  "getLogger name lg =
     (case loggers lg name of
        Some _ \<Rightarrow> (name, lg)
      | None \<Rightarrow> (name, lg\<lparr>loggers := (loggers lg)(name \<mapsto> \<lparr>handlers = [], propagate = True\<rparr>)\<rparr>))"

text \<open>
  \<^verbatim>\<open>Logger.hasHandlers()\<close> for a logger whose parent is the root: its own handlers, or
  the root's when it propagates.
\<close>

definition hasHandlers :: "string \<Rightarrow> logging \<Rightarrow> bool" where
  "hasHandlers name lg =
     (case loggers lg name of
        None \<Rightarrow> False
      | Some l \<Rightarrow> handlers l \<noteq> [] \<or> (propagate l \<and> handlers (root lg) \<noteq> []))"

text \<open>\<^verbatim>\<open>Logger.addHandler(h)\<close> with a handler object that was just created.\<close>

definition addHandler :: "string \<Rightarrow> handler \<Rightarrow> logging \<Rightarrow> logging" where
  "addHandler name h lg =
     (case loggers lg name of
        None \<Rightarrow> lg
      | Some l \<Rightarrow> lg\<lparr>loggers := (loggers lg)(name \<mapsto> l\<lparr>handlers := handlers l @ [h]\<rparr>)\<rparr>)"

definition handlers_of :: "string \<Rightarrow> logging \<Rightarrow> handler list" where
  "handlers_of name lg = (case loggers lg name of None \<Rightarrow> [] | Some l \<Rightarrow> handlers l)"

definition INFO :: nat where
  "INFO = 20"

definition log_format :: string where
  "log_format = ''[%(asctime)s] {%(filename)s:%(lineno)d} %(levelname)s - %(message)s''"

text \<open>
  \<open>priv_log\<close> is the attribute \<^verbatim>\<open>_log\<close>: \<open>None\<close>, or the logger object it refers to.
\<close>

record OpenDbtLogger =
  priv_log :: "string option"

text \<open>The property \<open>log\<close>: the logger it returns, the instance and the logging module after.\<close>

definition log ::
  "'a OpenDbtLogger_scheme \<Rightarrow> logging \<Rightarrow> string \<times> 'a OpenDbtLogger_scheme \<times> logging" where
  "log self lg =
     (case priv_log self of
        Some l \<Rightarrow> (l, self, lg)
      | None \<Rightarrow>
          (case getLogger ''opendbt'' lg of
             (l, lg1) \<Rightarrow>
               (l, self\<lparr>priv_log := Some l\<rparr>,
                if \<not> hasHandlers l lg1
                then addHandler l (StreamHandler ''sys.stdout'' log_format INFO) lg1
                else lg1)))"

text \<open>\<open>n\<close> accesses in a row, with the logger each of them returned.\<close>

fun log_accesses ::
  "nat \<Rightarrow> 'a OpenDbtLogger_scheme \<Rightarrow> logging \<Rightarrow> string list \<times> 'a OpenDbtLogger_scheme \<times> logging" where
  "log_accesses 0 self lg = ([], self, lg)"
| "log_accesses (Suc n) self lg =
     (case log self lg of
        (l, self1, lg1) \<Rightarrow>
          (case log_accesses n self1 lg1 of
             (ls, self2, lg2) \<Rightarrow> (l # ls, self2, lg2)))"

section \<open>Module opendbt: the base tool and the world around a call\<close>

text \<open>
  The base tool's result type \<^verbatim>\<open>dbtRunnerResult\<close>: a success flag, an optional exception
  and a payload whose type depends on the command (nothing, a boolean, a catalog, a list
  of strings, a manifest, or the results of a run, which iterate over their
  \<^verbatim>\<open>RunResult\<close> entries). \<open>manifest\<close> below tests the payload for being a manifest,
  \<open>run\<close> iterates over it.
\<close>

record run_result =
  status :: string
  message :: "string option"

datatype 'm dbt_result =
    ResultNone
  | ResultBool bool
  | ResultCatalog
  | ResultList "string list"
  | ResultManifest 'm
  | ResultRunExecution "run_result list"

record 'm dbtRunnerResult =
  success :: bool
  exception :: "py_exc option"
  result :: "'m dbt_result"

text \<open>
  \<^verbatim>\<open>PartialProject\<close> as far as the source reads it: the dictionary \<^verbatim>\<open>project_dict\<close>, read
  from \<^verbatim>\<open>dbt_project.yml\<close>. An entry such as \<^verbatim>\<open>vars\<close> is a dictionary, or \<open>None\<close> when the
  file gives the key without a value. A variable's value is given by its \<^verbatim>\<open>str()\<close>.
\<close>

record PartialProject =
  project_dict :: "string \<rightharpoonup> (string \<rightharpoonup> string) option"

text \<open>
  What the code calls and does not define: the base tool's project loader and runner,
  the helpers \<^verbatim>\<open>Utils.import_module_attribute_by_name\<close> and \<^verbatim>\<open>Utils.runcommand\<close>, and
  \<^verbatim>\<open>sys.executable\<close>. They are parameters of the model, and so is \<open>type_repr\<close>, the text
  that \<^verbatim>\<open>type(x)\<close> prints for a payload: it names the module in which the base tool defines
  the class. \<open>'cb\<close> is the type of callbacks, \<open>'m\<close> the type of manifests.
\<close>

record ('cb, 'm) externals =
  from_project_root :: "string \<Rightarrow> py_exc + PartialProject"
  import_module_attribute_by_name :: "string \<Rightarrow> py_exc + 'cb"
  dbt_invoke :: "'cb list \<Rightarrow> string list \<Rightarrow> 'm dbtRunnerResult"
  runcommand :: "string list \<Rightarrow> py_exc option"
  sys_executable :: string
  type_repr :: "'m dbt_result \<Rightarrow> string"

text \<open>
  Argument lists are Python list objects: a reference into \<open>heap\<close>. \<open>next_ref\<close> is the
  first reference that is not in use. \<open>dbt_calls\<close> and \<open>subprocess_calls\<close> record, in
  order, the argument lists the base tool and \<^verbatim>\<open>Utils.runcommand\<close> were called with.
\<close>

type_synonym ref = nat

record world =
  heap :: "ref \<Rightarrow> string list"
  next_ref :: ref
  dbt_calls :: "string list list"
  subprocess_calls :: "string list list"
  logging_module :: logging

text \<open>A list display or a concatenation: a new list object.\<close>

definition new_list :: "string list \<Rightarrow> world \<Rightarrow> ref \<times> world" where
  "new_list xs w = (next_ref w, w\<lparr>heap := (heap w)(next_ref w := xs), next_ref := Suc (next_ref w)\<rparr>)"

text \<open>\<^verbatim>\<open>r += xs\<close> on a list: the object itself is extended.\<close>

definition list_iadd :: "ref \<Rightarrow> string list \<Rightarrow> world \<Rightarrow> world" where
  "list_iadd r xs w = w\<lparr>heap := (heap w)(r := heap w r @ xs)\<rparr>"

text \<open>\<^verbatim>\<open>r.remove(x)\<close>: the first occurrence goes, and there must be one.\<close>

definition list_remove :: "ref \<Rightarrow> string \<Rightarrow> world \<Rightarrow> py_exc option \<times> world" where
  "list_remove r x w =
     (if x \<in> set (heap w r)
      then (None, w\<lparr>heap := (heap w)(r := remove1 x (heap w r))\<rparr>)
      else (Some (ValueError ''list.remove(x): x not in list''), w))"

text \<open>Truth values of an optional list argument and of an optional list object.\<close>

definition truthy :: "'a list option \<Rightarrow> bool" where
  "truthy v = (case v of None \<Rightarrow> False | Some xs \<Rightarrow> xs \<noteq> [])"

definition truthy_ref :: "ref option \<Rightarrow> world \<Rightarrow> bool" where
  "truthy_ref v w = (case v of None \<Rightarrow> False | Some r \<Rightarrow> heap w r \<noteq> [])"

text \<open>\<^verbatim>\<open>args if args else []\<close>: the caller's own list object, or a new empty list.\<close>

definition args_or_empty :: "ref option \<Rightarrow> world \<Rightarrow> ref \<times> world" where
  "args_or_empty args w = (if truthy_ref args w then (the args, w) else new_list [] w)"

text \<open>The contents of an optional list argument, for stating what a caller passed.\<close>

definition contents :: "ref option \<Rightarrow> world \<Rightarrow> string list" where
  "contents args w = (case args of None \<Rightarrow> [] | Some r \<Rightarrow> heap w r)"

section \<open>Module opendbt: OpenDbtCli\<close>

record 'cb OpenDbtCli =
  project_dir :: string
  profiles_dir :: "string option"
  priv_project :: "PartialProject option"
  priv_user_callbacks :: "'cb list"
  priv_project_callbacks :: "'cb list option"

text \<open>
  \<open>project_dir\<close> and \<open>profiles_dir\<close> hold the \<^verbatim>\<open>as_posix()\<close> of the paths. The
  attributes \<^verbatim>\<open>_user_callbacks\<close> and \<^verbatim>\<open>_project_callbacks\<close> refer to one list object
  once \<open>project_callbacks\<close> has run, so the model appends to both.
\<close>

definition project ::
  "('cb, 'm) externals \<Rightarrow> 'cb OpenDbtCli \<Rightarrow> (py_exc + PartialProject) \<times> 'cb OpenDbtCli" where
  "project ext self =
     (case priv_project self of
        Some p \<Rightarrow> (Inr p, self)
      | None \<Rightarrow>
          (case from_project_root ext (project_dir self) of
             Inl e \<Rightarrow> (Inl e, self)
           | Inr p \<Rightarrow> (Inr p, self\<lparr>priv_project := Some p\<rparr>)))"

text \<open>
  The body of \<open>project_vars\<close>: the entry \<^verbatim>\<open>vars\<close> as it is when the key is there, the empty
  dictionary when it is not. The entry is returned unchecked, so the result is \<open>None\<close> when
  the entry is.
\<close>

definition vars_of :: "PartialProject \<Rightarrow> (string \<rightharpoonup> string) option" where
  "vars_of p = (case project_dict p ''vars'' of Some v \<Rightarrow> v | None \<Rightarrow> Some Map.empty)"

definition project_vars ::
  "('cb, 'm) externals \<Rightarrow> 'cb OpenDbtCli \<Rightarrow>
     (py_exc + (string \<rightharpoonup> string) option) \<times> 'cb OpenDbtCli" where
  "project_vars ext self =
     (case project ext self of
        (Inl e, self1) \<Rightarrow> (Inl e, self1)
      | (Inr p, self1) \<Rightarrow> (Inr (vars_of p), self1))"

text \<open>
  The loop of \<open>project_callbacks\<close>: each name is imported and the callback appended; the
  first import that raises ends the loop, with the list as it is by then.
\<close>

fun import_callbacks ::
  "(string \<Rightarrow> py_exc + 'cb) \<Rightarrow> string list \<Rightarrow> 'cb list \<Rightarrow> py_exc option \<times> 'cb list" where
  "import_callbacks imp [] cbs = (None, cbs)"
| "import_callbacks imp (callback_module # rest) cbs =
     (case imp callback_module of
        Inl e \<Rightarrow> (Some e, cbs)
      | Inr project_callback \<Rightarrow> import_callbacks imp rest (cbs @ [project_callback]))"

text \<open>
  The property \<open>project_callbacks\<close>. The test \<^verbatim>\<open>'dbt_callbacks' in self.project_vars\<close>
  raises \<^verbatim>\<open>TypeError\<close> when \<open>project_vars\<close> is \<open>None\<close>.
\<close>

definition project_callbacks ::
  "('cb, 'm) externals \<Rightarrow> 'cb OpenDbtCli \<Rightarrow> (py_exc + 'cb list) \<times> 'cb OpenDbtCli" where
  "project_callbacks ext self =
     (if truthy (priv_project_callbacks self)
      then (Inr (the (priv_project_callbacks self)), self)
      else
        (case project_vars ext (self\<lparr>priv_project_callbacks := Some (priv_user_callbacks self)\<rparr>) of
           (Inl e, self1) \<Rightarrow> (Inl e, self1)
         | (Inr None, self1) \<Rightarrow>
             (Inl (TypeError (''argument of type '' @ [CHR 0x27] @ ''NoneType'' @ [CHR 0x27] @
                              '' is not iterable'')), self1)
         | (Inr (Some vs), self1) \<Rightarrow>
             (case vs ''dbt_callbacks'' of
                None \<Rightarrow> (Inr (priv_user_callbacks self1), self1)
              | Some v \<Rightarrow>
                  (case import_callbacks (import_module_attribute_by_name ext)
                          (py_split CHR '','' v) (priv_user_callbacks self1) of
                     (exc, cbs) \<Rightarrow>
                       (case exc of Some e \<Rightarrow> Inl e | None \<Rightarrow> Inr cbs,
                        self1\<lparr>priv_user_callbacks := cbs, priv_project_callbacks := Some cbs\<rparr>)))))"

text \<open>
  The loop at the end of \<open>run\<close> with the raise behind it: \<open>result_messages\<close> is reset for
  each entry and is non-empty exactly for an entry of status \<^verbatim>\<open>error\<close>.
\<close>

fun raise_first_error :: "run_result list \<Rightarrow> py_exc" where
  "raise_first_error [] = DbtRuntimeError (Some ''DBT execution failed!'')"
| "raise_first_error (r # rs) =
     (let result_messages = [];
          result_messages =
            (if status r = ''error''
             then result_messages @ (result_messages @ [CHR 0x0A])
             else result_messages)
      in if result_messages \<noteq> [] then DbtRuntimeError (message r) else raise_first_error rs)"

text \<open>
  \<^verbatim>\<open>for _result in result.result\<close> on each kind of payload: a value that is not iterable
  raises \<^verbatim>\<open>TypeError\<close>, a string has no attribute \<^verbatim>\<open>status\<close>.
\<close>

definition raise_from_result :: "'m dbt_result \<Rightarrow> py_exc" where
  "raise_from_result r =
     (case r of
        ResultRunExecution rs \<Rightarrow> raise_first_error rs
      | ResultList [] \<Rightarrow> raise_first_error []
      | ResultList (s # _) \<Rightarrow> AttributeError ''status''
      | ResultNone \<Rightarrow> TypeError ''NoneType object is not iterable''
      | ResultBool _ \<Rightarrow> TypeError ''bool object is not iterable''
      | ResultCatalog \<Rightarrow> TypeError ''CatalogArtifact object is not iterable''
      | ResultManifest _ \<Rightarrow> TypeError ''Manifest object is not iterable'')"

definition OpenDbtCli_run ::
  "('cb, 'm) externals \<Rightarrow> string list \<Rightarrow> 'cb list option \<Rightarrow> world \<Rightarrow>
     (py_exc + 'm dbtRunnerResult) \<times> world" where
  "OpenDbtCli_run ext args callbacks w =
     (let callbacks1 = (if truthy callbacks then the callbacks else []);
          res = dbt_invoke ext callbacks1 args;
          w1 = w\<lparr>dbt_calls := dbt_calls w @ [args]\<rparr>
      in if success res then (Inr res, w1)
         else (case exception res of
                 Some e \<Rightarrow> (Inl e, w1)
               | None \<Rightarrow> (Inl (raise_from_result (result res)), w1)))"

definition invoke ::
  "('cb, 'm) externals \<Rightarrow> 'cb OpenDbtCli \<Rightarrow> ref option \<Rightarrow> 'cb list option \<Rightarrow> world \<Rightarrow>
     (py_exc + 'm dbtRunnerResult) \<times> 'cb OpenDbtCli \<times> world" where
  "invoke ext self args callbacks w =
     (case project_callbacks ext self of
        (Inl e, self1) \<Rightarrow> (Inl e, self1, w)
      | (Inr pcbs, self1) \<Rightarrow>
          (let run_callbacks = (if truthy callbacks then pcbs @ the callbacks else pcbs) in
           case args_or_empty args w of
             (run_args, w1) \<Rightarrow>
               (let w2 = (if ''--project-dir'' \<notin> set (heap w1 run_args)
                          then list_iadd run_args [''--project-dir'', project_dir self1] w1
                          else w1);
                    w3 = (if ''--profiles-dir'' \<notin> set (heap w2 run_args) \<and> profiles_dir self1 \<noteq> None
                          then list_iadd run_args [''--profiles-dir'', the (profiles_dir self1)] w2
                          else w2)
                in case OpenDbtCli_run ext (heap w3 run_args) (Some run_callbacks) w3 of
                     (r, w4) \<Rightarrow> (r, self1, w4))))"

text \<open>The list that \<open>manifest\<close> builds before it calls \<open>invoke\<close>.\<close>

definition manifest_args :: "bool \<Rightarrow> bool \<Rightarrow> world \<Rightarrow> ref \<times> world" where
  "manifest_args partial_parse no_write_manifest w =
     (case new_list [''parse''] w of
        (args, w1) \<Rightarrow>
          (let w2 = (if partial_parse then list_iadd args [''--partial-parse''] w1 else w1);
               w3 = (if no_write_manifest then list_iadd args [''--no-write-json''] w2 else w2)
           in (args, w3)))"

definition no_manifest_msg :: "('cb, 'm) externals \<Rightarrow> 'm dbt_result \<Rightarrow> string" where
  "no_manifest_msg ext r =
     ''DBT execution did not return Manifest object. returned:'' @ type_repr ext r"

definition manifest ::
  "('cb, 'm) externals \<Rightarrow> 'cb OpenDbtCli \<Rightarrow> bool \<Rightarrow> bool \<Rightarrow> world \<Rightarrow>
     (py_exc + 'm) \<times> 'cb OpenDbtCli \<times> world" where
  "manifest ext self partial_parse no_write_manifest w =
     (case manifest_args partial_parse no_write_manifest w of
        (args, w1) \<Rightarrow>
          (case invoke ext self (Some args) None w1 of
             (Inl e, self1, w2) \<Rightarrow> (Inl e, self1, w2)
           | (Inr res, self1, w2) \<Rightarrow>
               (case result res of
                  ResultManifest m \<Rightarrow> (Inr m, self1, w2)
                | other \<Rightarrow> (Inl (PyException (no_manifest_msg ext other) None), self1, w2))))"

text \<open>
  The first line of \<open>generate_docs\<close>. The conditional expression binds weaker than \<^verbatim>\<open>+\<close>:
  it is \<^verbatim>\<open>(["docs", "generate"] + args) if args else []\<close>.
\<close>

definition generate_docs_args :: "ref option \<Rightarrow> world \<Rightarrow> ref \<times> world" where
  "generate_docs_args args w =
     (if truthy_ref args w
      then new_list ([''docs'', ''generate''] @ heap w (the args)) w
      else new_list [] w)"

definition generate_docs ::
  "('cb, 'm) externals \<Rightarrow> 'cb OpenDbtCli \<Rightarrow> ref option \<Rightarrow> world \<Rightarrow>
     py_exc option \<times> 'cb OpenDbtCli \<times> world" where
  "generate_docs ext self args w =
     (case generate_docs_args args w of
        (args1, w1) \<Rightarrow>
          (case invoke ext self (Some args1) None w1 of
             (Inl e, self1, w2) \<Rightarrow> (Some e, self1, w2)
           | (Inr _, self1, w2) \<Rightarrow> (None, self1, w2)))"

section \<open>Module opendbt: OpenDbtProject\<close>

text \<open>
  \<open>OpenDbtProject\<close> inherits \<^verbatim>\<open>_log\<close> from \<open>OpenDbtLogger\<close>. \<open>args\<close> is the list object
  the instance stores; it may be the very object a caller passes to \<open>run\<close> again.
\<close>

record 'cb OpenDbtProject = OpenDbtLogger +
  project_dir :: string
  profiles_dir :: "string option"
  target :: string
  args :: ref
  cli :: "'cb OpenDbtCli"

definition DEFAULT_TARGET :: string where
  "DEFAULT_TARGET = ''dev''"

text \<open>\<^verbatim>\<open>target if target else self.target\<close>, for an optional string.\<close>

definition target_or_default :: "string option \<Rightarrow> string \<Rightarrow> string" where
  "target_or_default t d = (case t of None \<Rightarrow> d | Some s \<Rightarrow> if s \<noteq> [] then s else d)"

text \<open>
  The first part of \<open>OpenDbtProject.run\<close>, up to the call of \<^verbatim>\<open>remove\<close>: the options are
  appended to \<open>run_args\<close> in place, then the command, \<open>run_args\<close> and the stored arguments
  are concatenated into a new list, from which \<^verbatim>\<open>--no-write-json\<close> is removed when
  \<open>write_json\<close> is set.
\<close>

definition assemble_run_args ::
  "'cb OpenDbtProject \<Rightarrow> string \<Rightarrow> string option \<Rightarrow> ref option \<Rightarrow> bool \<Rightarrow> world \<Rightarrow>
     (py_exc + ref) \<times> world" where
  "assemble_run_args self command tgt arguments write_json w =
     (case args_or_empty arguments w of
        (run_args, w1) \<Rightarrow>
          (let w2 = list_iadd run_args [''--target'', target_or_default tgt (target self)] w1;
               w3 = list_iadd run_args [''--project-dir'', project_dir self] w2;
               w4 = (if profiles_dir self \<noteq> None
                     then list_iadd run_args [''--profiles-dir'', the (profiles_dir self)] w3
                     else w3)
           in case new_list ([command] @ heap w4 run_args @ heap w4 (args self)) w4 of
                (run_args1, w5) \<Rightarrow>
                  if write_json
                  then (case list_remove run_args1 ''--no-write-json'' w5 of
                          (Some e, w6) \<Rightarrow> (Inl e, w6)
                        | (None, w6) \<Rightarrow> (Inr run_args1, w6))
                  else (Inr run_args1, w5)))"

text \<open>
  \<^verbatim>\<open>self.log.info(...)\<close>: the property \<open>log\<close> is read; the line that is written is not
  part of the model.
\<close>

definition log_info :: "'cb OpenDbtProject \<Rightarrow> world \<Rightarrow> 'cb OpenDbtProject \<times> world" where
  "log_info self w =
     (case log self (logging_module w) of
        (l, self1, lg1) \<Rightarrow> (self1, w\<lparr>logging_module := lg1\<rparr>))"

text \<open>
  \<open>OpenDbtProject.run\<close>. The result is \<open>None\<close> after a subprocess and the base tool's
  result otherwise.
\<close>

definition OpenDbtProject_run ::
  "('cb, 'm) externals \<Rightarrow> 'cb OpenDbtProject \<Rightarrow> string \<Rightarrow> string option \<Rightarrow> ref option \<Rightarrow>
     bool \<Rightarrow> bool \<Rightarrow> world \<Rightarrow>
     (py_exc + 'm dbtRunnerResult option) \<times> 'cb OpenDbtProject \<times> world" where
  "OpenDbtProject_run ext self command tgt arguments use_subprocess write_json w =
     (case assemble_run_args self command tgt arguments write_json w of
        (Inl e, w1) \<Rightarrow> (Inl e, self, w1)
      | (Inr run_args, w1) \<Rightarrow>
          if use_subprocess
          then
            (case log_info self w1 of
               (self1, w2) \<Rightarrow>
                 (let py_executable =
                        (if sys_executable ext \<noteq> [] then sys_executable ext else ''python'') in
                  case log_info self1 w2 of
                    (self2, w3) \<Rightarrow>
                      (let cmd = [py_executable, ''-m'', ''opendbt''] @ heap w3 run_args in
                       case log_info self2 w3 of
                         (self3, w4) \<Rightarrow>
                           (let w5 = w4\<lparr>subprocess_calls := subprocess_calls w4 @ [cmd]\<rparr> in
                            case runcommand ext cmd of
                              Some e \<Rightarrow> (Inl e, self3, w5)
                            | None \<Rightarrow> (Inr None, self3, w5)))))
          else
            (case log_info self w1 of
               (self1, w2) \<Rightarrow>
                 (case invoke ext (cli self1) (Some run_args) None w2 of
                    (r, cli1, w3) \<Rightarrow>
                      (case r of Inl e \<Rightarrow> Inl e | Inr res \<Rightarrow> Inr (Some res),
                       self1\<lparr>cli := cli1\<rparr>, w3))))"

section \<open>Example inputs\<close>

text \<open>
  A project whose variables name two callbacks, an importer that knows both, and a base
  tool that answers \<^verbatim>\<open>parse\<close> with a manifest, fails \<^verbatim>\<open>debug\<close> with the boolean
  \<open>False\<close> and no exception, and answers every other command with the results of a run.
\<close>

definition example_ext :: "(nat, nat) externals" where
  "example_ext =
     \<lparr>from_project_root =
        (\<lambda>d. Inr \<lparr>project_dict =
                      [''vars'' \<mapsto> Some [''dbt_callbacks'' \<mapsto> ''pkg.one,pkg.two'']]\<rparr>),
      import_module_attribute_by_name =
        (\<lambda>n. if n = ''pkg.one'' then Inr 1
             else if n = ''pkg.two'' then Inr 2
             else Inl (ModuleNotFoundError n)),
      dbt_invoke =
        (\<lambda>cbs a.
           if ''parse'' \<in> set a
           then \<lparr>success = True, exception = None, result = ResultManifest 7\<rparr>
           else if ''debug'' \<in> set a
           then \<lparr>success = False, exception = None, result = ResultBool False\<rparr>
           else \<lparr>success = True, exception = None,
                 result = ResultRunExecution [\<lparr>status = ''success'', message = None\<rparr>]\<rparr>),
      runcommand = (\<lambda>c. None),
      sys_executable = ''/usr/bin/python3'',
      type_repr =
        (\<lambda>r. ''<class '' @ [CHR 0x27] @
             (case r of
                ResultNone \<Rightarrow> ''NoneType''
              | ResultBool _ \<Rightarrow> ''bool''
              | ResultCatalog \<Rightarrow> ''dbt.artifacts.schemas.catalog.v1.catalog.CatalogArtifact''
              | ResultList _ \<Rightarrow> ''list''
              | ResultManifest _ \<Rightarrow> ''dbt.contracts.graph.manifest.Manifest''
              | ResultRunExecution _ \<Rightarrow> ''dbt.artifacts.schemas.run.v5.run.RunExecutionResult'') @
             [CHR 0x27] @ ''>'')\<rparr>"

text \<open>
  The same surroundings with a project file that gives the key \<^verbatim>\<open>vars\<close> without a value.
\<close>

definition empty_vars_ext :: "(nat, nat) externals" where
  "empty_vars_ext =
     example_ext\<lparr>from_project_root := (\<lambda>d. Inr \<lparr>project_dict = [''vars'' \<mapsto> None]\<rparr>)\<rparr>"

text \<open>The same surroundings with an importer that finds no module.\<close>

definition broken_ext :: "(nat, nat) externals" where
  "broken_ext =
     example_ext\<lparr>import_module_attribute_by_name := (\<lambda>n. Inl (ModuleNotFoundError n))\<rparr>"

definition example_cli :: "nat OpenDbtCli" where
  "example_cli =
     \<lparr>OpenDbtCli.project_dir = ''/proj'', OpenDbtCli.profiles_dir = Some ''/prof'',
      priv_project = None,
      priv_user_callbacks = [0], priv_project_callbacks = None\<rparr>"

text \<open>
  A world with two list objects: reference 0 is a caller's list \<^verbatim>\<open>["run"]\<close>, reference 1
  is the empty list an \<open>OpenDbtProject\<close> stores.
\<close>

definition example_world :: world where
  "example_world =
     \<lparr>heap = (\<lambda>r. [])(0 := [''run'']), next_ref = 2, dbt_calls = [], subprocess_calls = [],
      logging_module = \<lparr>root = \<lparr>handlers = [], propagate = True\<rparr>, loggers = Map.empty\<rparr>\<rparr>"

definition example_project :: "nat OpenDbtProject" where
  "example_project =
     \<lparr>priv_log = None, project_dir = ''/proj'', profiles_dir = None, target = DEFAULT_TARGET,
      args = 1, cli = example_cli\<lparr>OpenDbtCli.profiles_dir := None\<rparr>\<rparr>"

section \<open>Properties of dbtcommon\<close>

text \<open>
  \<open>py_split\<close> is the split of the string at every separator: no piece contains the
  separator, and the pieces, each behind a separator, give the string behind a separator.
\<close>

lemma py_split_nonempty: "py_split c s \<noteq> []"
  by (induction s) (auto split: list.splits)

lemma py_split_pieces: "p \<in> set (py_split c s) \<Longrightarrow> c \<notin> set p"
  by (induction s arbitrary: p) (auto split: list.splits if_splits)

lemma py_split_join: "concat (map ((#) c) (py_split c s)) = c # s"
  by (induction s) (auto split: list.splits simp: py_split_nonempty)

lemma py_strip_Nil_iff: "py_strip s = [] \<longleftrightarrow> list_all py_isspace s"
proof
  assume "py_strip s = []"
  then have a: "\<forall>x \<in> set (dropWhile py_isspace s). py_isspace x"
    by (simp add: py_strip_def)
  have "dropWhile py_isspace s = []"
  proof (rule ccontr)
    assume n: "dropWhile py_isspace s \<noteq> []"
    then have "\<not> py_isspace (hd (dropWhile py_isspace s))" by (rule hd_dropWhile)
    moreover have "hd (dropWhile py_isspace s) \<in> set (dropWhile py_isspace s)" using n by simp
    ultimately show False using a by blast
  qed
  then show "list_all py_isspace s" by (simp add: list_all_iff)
next
  assume "list_all py_isspace s"
  then have "dropWhile py_isspace s = []" by (simp add: list_all_iff)
  then show "py_strip s = []" by (simp only: py_strip_def rev.simps dropWhile.simps)
qed

lemma adapter_var_of_present_nonblank: "adapter_var_of attr = present_nonblank attr"
proof -
  have "\<And>v. (v \<noteq> [] \<and> py_strip v \<noteq> []) = (\<not> blank v)"
    by (auto simp: py_strip_Nil_iff blank_def)
  then show ?thesis
    by (simp add: adapter_var_of_def present_nonblank_def DBT_CUSTOM_ADAPTER_VAR_def
        split: option.splits)
qed

text \<open>
  C3. \<open>get_custom_adapter_config_value\<close> returns the value of \<^verbatim>\<open>dbt_custom_adapter\<close> from the
  CLI vars when the key is there with a value that is not blank; otherwise the value of
  the same key from the project vars when it is there and not blank; otherwise \<open>None\<close>.
  A blank value (empty, or whitespace only) counts as absent, and the CLI vars win.
\<close>

theorem get_custom_adapter_config_value_precedence:
  "get_custom_adapter_config_value config =
     (case present_nonblank (cli_vars config) of
        Some v \<Rightarrow> Some v
      | None \<Rightarrow> present_nonblank (vars config))"
  by (simp add: get_custom_adapter_config_value_def adapter_var_of_present_nonblank
      split: option.splits)

theorem get_custom_adapter_config_value_precedence_witness:
  "get_custom_adapter_config_value
     \<lparr>cli_vars = Some [''dbt_custom_adapter'' \<mapsto> '' ''],
      vars = Some [''dbt_custom_adapter'' \<mapsto> ''my.lib.Adapter'']\<rparr> = Some ''my.lib.Adapter''
   \<and> get_custom_adapter_config_value
     \<lparr>cli_vars = Some [''dbt_custom_adapter'' \<mapsto> ''cli.Adapter''],
      vars = Some [''dbt_custom_adapter'' \<mapsto> ''my.lib.Adapter'']\<rparr> = Some ''cli.Adapter''
   \<and> get_custom_adapter_config_value \<lparr>cli_vars = None, vars = Some Map.empty\<rparr> = None"
  using get_custom_adapter_config_value_precedence
          [of "\<lparr>cli_vars = Some [''dbt_custom_adapter'' \<mapsto> '' ''],
               vars = Some [''dbt_custom_adapter'' \<mapsto> ''my.lib.Adapter'']\<rparr>"]
        get_custom_adapter_config_value_precedence
          [of "\<lparr>cli_vars = Some [''dbt_custom_adapter'' \<mapsto> ''cli.Adapter''],
               vars = Some [''dbt_custom_adapter'' \<mapsto> ''my.lib.Adapter'']\<rparr>"]
        get_custom_adapter_config_value_precedence
          [of "\<lparr>cli_vars = None, vars = Some Map.empty\<rparr>"]
  by (simp add: present_nonblank_def blank_def py_isspace_def)

lemma py_rsplit1_last:
  assumes "c \<in> set s"
  shows "\<exists>m a. py_rsplit1 c s = (m, a) \<and> s = m @ c # a \<and> c \<notin> set a"
proof -
  let ?a = "rev (takeWhile (\<lambda>x. x \<noteq> c) (rev s))"
  have ne: "dropWhile (\<lambda>x. x \<noteq> c) (rev s) \<noteq> []"
    using assms by simp
  then have "hd (dropWhile (\<lambda>x. x \<noteq> c) (rev s)) = c"
    using hd_dropWhile[of "\<lambda>x. x \<noteq> c" "rev s"] by simp
  then obtain t where t: "dropWhile (\<lambda>x. x \<noteq> c) (rev s) = c # t"
    using ne by (cases "dropWhile (\<lambda>x. x \<noteq> c) (rev s)") auto
  have "rev s = takeWhile (\<lambda>x. x \<noteq> c) (rev s) @ c # t"
    using takeWhile_dropWhile_id[of "\<lambda>x. x \<noteq> c" "rev s"] t by simp
  then have "rev (rev s) = rev (takeWhile (\<lambda>x. x \<noteq> c) (rev s) @ c # t)"
    by (rule arg_cong)
  then have s2: "s = rev t @ c # ?a" by simp
  have len: "length s - length ?a - 1 = length (rev t)"
    using arg_cong[OF s2, of length] by simp
  have tk: "take (length s - length ?a - 1) s = rev t"
    unfolding len by (subst s2) simp
  have "c \<notin> set ?a" using set_takeWhileD by fastforce
  then show ?thesis using tk s2 by (simp add: py_rsplit1_def Let_def)
qed

text \<open>
  C2, as the code has it. A name without a dot raises \<^verbatim>\<open>ValueError\<close>. A name with a dot
  is split at its last dot into a module path and an attribute name, and the module is
  imported: a \<^verbatim>\<open>ModuleNotFoundError\<close> of the import becomes an \<^verbatim>\<open>Exception\<close> chained from
  it, any other exception of the import is passed on as it is, and otherwise the result is
  that attribute of the module (\<^verbatim>\<open>AttributeError\<close> when the module has none of that name).
\<close>

theorem get_custom_adapter_class_by_name_outcome:
  "(CHR ''.'' \<notin> set n \<longrightarrow>
      get_custom_adapter_class_by_name imp n = Inl (ValueError (unexpected_adapter_msg n))) \<and>
   (CHR ''.'' \<in> set n \<longrightarrow>
      (\<exists>m c. n = m @ CHR ''.'' # c \<and> CHR ''.'' \<notin> set c \<and>
         get_custom_adapter_class_by_name imp n =
           (case imp m of
              Inl e \<Rightarrow>
                if is_ModuleNotFoundError e
                then Inl (PyException (adapter_module_not_found_msg n) (Some e))
                else Inl e
            | Inr md \<Rightarrow> (case md c of None \<Rightarrow> Inl (AttributeError c) | Some v \<Rightarrow> Inr v))))"
proof (intro conjI impI)
  assume "CHR ''.'' \<notin> set n"
  then show "get_custom_adapter_class_by_name imp n = Inl (ValueError (unexpected_adapter_msg n))"
    by (simp add: get_custom_adapter_class_by_name_def)
next
  assume d: "CHR ''.'' \<in> set n"
  then obtain m c where mc: "py_rsplit1 CHR ''.'' n = (m, c)" "n = m @ CHR ''.'' # c"
      "CHR ''.'' \<notin> set c"
    using py_rsplit1_last by blast
  have "get_custom_adapter_class_by_name imp n =
           (case imp m of
              Inl e \<Rightarrow>
                if is_ModuleNotFoundError e
                then Inl (PyException (adapter_module_not_found_msg n) (Some e))
                else Inl e
            | Inr md \<Rightarrow> (case md c of None \<Rightarrow> Inl (AttributeError c) | Some v \<Rightarrow> Inr v))"
    using d mc(1)
    by (simp add: get_custom_adapter_class_by_name_def py_getattr_def split: sum.splits)
  with mc(2,3) show "\<exists>m c. n = m @ CHR ''.'' # c \<and> CHR ''.'' \<notin> set c \<and>
         get_custom_adapter_class_by_name imp n =
           (case imp m of
              Inl e \<Rightarrow>
                if is_ModuleNotFoundError e
                then Inl (PyException (adapter_module_not_found_msg n) (Some e))
                else Inl e
            | Inr md \<Rightarrow> (case md c of None \<Rightarrow> Inl (AttributeError c) | Some v \<Rightarrow> Inr v))"
    by blast
qed

theorem get_custom_adapter_class_by_name_outcome_witness:
  "\<exists>m c. ''my.lib.Adapter'' = m @ CHR ''.'' # c \<and> CHR ''.'' \<notin> set c \<and>
     get_custom_adapter_class_by_name
       (import_module [''my.lib'' \<mapsto> [''Adapter'' \<mapsto> (1::nat)]]) ''my.lib.Adapter'' =
       (case import_module [''my.lib'' \<mapsto> [''Adapter'' \<mapsto> (1::nat)]] m of
          Inl e \<Rightarrow>
            if is_ModuleNotFoundError e
            then Inl (PyException (adapter_module_not_found_msg ''my.lib.Adapter'') (Some e))
            else Inl e
        | Inr md \<Rightarrow> (case md c of None \<Rightarrow> Inl (AttributeError c) | Some v \<Rightarrow> Inr v))"
  using get_custom_adapter_class_by_name_outcome
          [of "''my.lib.Adapter''" "import_module [''my.lib'' \<mapsto> [''Adapter'' \<mapsto> (1::nat)]]"]
  by simp

text \<open>
  C2 as stated fails: the name \<^verbatim>\<open>.Foo\<close> contains a dot, its module part is empty, and the
  import of the empty name raises \<^verbatim>\<open>ValueError\<close>, which the source does not catch.
\<close>

theorem get_custom_adapter_class_by_name_counterexample:
  "CHR ''.'' \<in> set ''.Foo'' \<and>
   get_custom_adapter_class_by_name (import_module (Map.empty :: string \<rightharpoonup> nat py_module)) ''.Foo''
     = Inl (ValueError ''Empty module name'')"
  by (simp add: get_custom_adapter_class_by_name_def py_rsplit1_def import_module_def)

lemma get_custom_adapter_class_by_name_example:
  "get_custom_adapter_class_by_name
     (import_module [''my.lib'' \<mapsto> [''Adapter'' \<mapsto> (1::nat)]]) ''my.lib.Adapter'' = Inr 1
   \<and> get_custom_adapter_class_by_name
     (import_module [''my.lib'' \<mapsto> [''Adapter'' \<mapsto> (1::nat)]]) ''other.Adapter''
     = Inl (PyException (adapter_module_not_found_msg ''other.Adapter'')
              (Some (ModuleNotFoundError ''other'')))
   \<and> get_custom_adapter_class_by_name
     (import_module [''my.lib'' \<mapsto> [''Adapter'' \<mapsto> (1::nat)]]) ''my.lib.Missing''
     = Inl (AttributeError ''Missing'')"
  by (simp add: get_custom_adapter_class_by_name_def py_rsplit1_def import_module_def
      py_getattr_def)

section \<open>Properties of OpenDbtCli\<close>

text \<open>
  C10. When \<open>generate_docs\<close> is called with \<open>None\<close> or an empty list, the list it passes
  to \<open>invoke\<close> is empty: it holds neither \<^verbatim>\<open>docs\<close> nor \<^verbatim>\<open>generate\<close>. Only for a
  non-empty list is it \<^verbatim>\<open>["docs", "generate"]\<close> followed by the arguments.
\<close>

theorem generate_docs_args_contents:
  "generate_docs_args arguments w = (a, w1) \<Longrightarrow>
     (contents arguments w = [] \<longrightarrow>
        heap w1 a = [] \<and> ''docs'' \<notin> set (heap w1 a) \<and> ''generate'' \<notin> set (heap w1 a)) \<and>
     (contents arguments w \<noteq> [] \<longrightarrow> heap w1 a = [''docs'', ''generate''] @ contents arguments w) \<and>
     (heap w1 a = [''docs'', ''generate''] @ contents arguments w \<longleftrightarrow> contents arguments w \<noteq> []) \<and>
     generate_docs ext self arguments w =
       (case invoke ext self (Some a) None w1 of
          (Inl e, self1, w2) \<Rightarrow> (Some e, self1, w2)
        | (Inr r, self1, w2) \<Rightarrow> (None, self1, w2))"
  by (auto simp: generate_docs_args_def generate_docs_def contents_def truthy_ref_def
      new_list_def split: option.splits if_splits)

theorem generate_docs_args_contents_witness:
  "generate_docs_args None example_world = (2, snd (generate_docs_args None example_world)) \<and>
   contents None example_world = [] \<and>
   heap (snd (generate_docs_args None example_world)) 2 = [] \<and>
   generate_docs_args (Some 0) example_world
     = (2, snd (generate_docs_args (Some 0) example_world)) \<and>
   contents (Some 0) example_world \<noteq> [] \<and>
   heap (snd (generate_docs_args (Some 0) example_world)) 2 = [''docs'', ''generate'', ''run'']"
  using generate_docs_args_contents
          [of None example_world 2 "snd (generate_docs_args None example_world)"]
        generate_docs_args_contents
          [of "Some 0" example_world 2 "snd (generate_docs_args (Some 0) example_world)"]
  by (simp add: generate_docs_args_def contents_def truthy_ref_def new_list_def
      example_world_def)

lemma project_callbacks_dirs:
  "project_callbacks ext self = (r, self1) \<Longrightarrow>
     OpenDbtCli.project_dir self1 = OpenDbtCli.project_dir self \<and>
     OpenDbtCli.profiles_dir self1 = OpenDbtCli.profiles_dir self"
  by (auto simp: project_callbacks_def project_vars_def project_def
      split: if_splits option.splits sum.splits prod.splits)

lemma dbt_calls_OpenDbtCli_run:
  "dbt_calls (snd (OpenDbtCli_run ext a cbs w)) = dbt_calls w @ [a]"
  by (simp add: OpenDbtCli_run_def Let_def split: option.splits)

lemma heap_OpenDbtCli_run: "heap (snd (OpenDbtCli_run ext a cbs w)) = heap w"
  by (simp add: OpenDbtCli_run_def Let_def split: option.splits)

lemma args_or_empty_contents:
  "args_or_empty a0 w = (r, w1) \<Longrightarrow> heap w1 r = contents a0 w \<and> dbt_calls w1 = dbt_calls w"
  by (auto simp: args_or_empty_def truthy_ref_def contents_def new_list_def
      split: if_splits option.splits)

lemma invoke_dbt_calls:
  "dbt_calls (snd (snd (invoke ext self a0 callbacks w))) =
     dbt_calls w @
     (case fst (project_callbacks ext self) of
        Inl e \<Rightarrow> []
      | Inr pcbs \<Rightarrow>
          [let a1 = contents a0 w @
                    (if ''--project-dir'' \<notin> set (contents a0 w)
                     then [''--project-dir'', OpenDbtCli.project_dir self] else [])
           in a1 @
              (if OpenDbtCli.profiles_dir self \<noteq> None \<and> ''--profiles-dir'' \<notin> set a1
               then [''--profiles-dir'', the (OpenDbtCli.profiles_dir self)] else [])])"
proof (cases "project_callbacks ext self")
  case (Pair r self1)
  note pc = this
  show ?thesis
  proof (cases r)
    case (Inl e)
    with pc show ?thesis by (simp add: invoke_def)
  next
    case (Inr pcbs)
    obtain ra w1 where ao: "args_or_empty a0 w = (ra, w1)" by (cases "args_or_empty a0 w")
    from args_or_empty_contents[OF ao]
    have h: "heap w1 ra = contents a0 w" and d: "dbt_calls w1 = dbt_calls w" by simp_all
    from project_callbacks_dirs[OF pc]
    have dirs: "OpenDbtCli.project_dir self1 = OpenDbtCli.project_dir self"
      "OpenDbtCli.profiles_dir self1 = OpenDbtCli.profiles_dir self" by simp_all
    show ?thesis
      using pc Inr ao h d dirs
      by (simp add: invoke_def Let_def list_iadd_def dbt_calls_OpenDbtCli_run
          case_prod_unfold)
  qed
qed

text \<open>
  C4. The list that \<open>invoke\<close> forwards to the base tool is the caller's arguments, then
  \<^verbatim>\<open>--project-dir\<close> with the project directory exactly when \<^verbatim>\<open>--project-dir\<close> is not
  among the arguments, then \<^verbatim>\<open>--profiles-dir\<close> with the profiles directory exactly when
  one is configured and \<^verbatim>\<open>--profiles-dir\<close> is not an element of the list extended so far.
  The caller's arguments come first, unchanged and in order. Nothing is forwarded when the
  project's callbacks cannot be obtained.
\<close>

theorem invoke_forwarded_args:
  "dbt_calls (snd (snd (invoke ext self a0 callbacks w))) =
     dbt_calls w @
     (case fst (project_callbacks ext self) of
        Inl e \<Rightarrow> []
      | Inr pcbs \<Rightarrow>
          [let a1 = contents a0 w @
                    (if ''--project-dir'' \<notin> set (contents a0 w)
                     then [''--project-dir'', OpenDbtCli.project_dir self] else [])
           in a1 @
              (if OpenDbtCli.profiles_dir self \<noteq> None \<and> ''--profiles-dir'' \<notin> set a1
               then [''--profiles-dir'', the (OpenDbtCli.profiles_dir self)] else [])])"
  by (rule invoke_dbt_calls)

theorem invoke_forwarded_args_witness:
  "dbt_calls (snd (snd (invoke example_ext example_cli (Some 0) None example_world))) =
     [[''run'', ''--project-dir'', ''/proj'', ''--profiles-dir'', ''/prof'']]"
  using invoke_forwarded_args [of example_ext example_cli "Some 0" None example_world]
  by (simp add: project_callbacks_def project_vars_def project_def vars_of_def truthy_def
      contents_def example_ext_def example_cli_def example_world_def)

lemma invoke_profiles_test:
  "OpenDbtCli.project_dir self \<noteq> ''--profiles-dir'' \<Longrightarrow>
     (''--profiles-dir'' \<notin> set (xs @
         (if ''--project-dir'' \<notin> set xs then [''--project-dir'', OpenDbtCli.project_dir self]
          else []))) =
     (''--profiles-dir'' \<notin> set xs)"
  by auto

lemma manifest_args_contents:
  "manifest_args pp nw w = (a, w1) \<Longrightarrow>
     heap w1 a = [''parse''] @ (if pp then [''--partial-parse''] else []) @
                 (if nw then [''--no-write-json''] else []) \<and>
     dbt_calls w1 = dbt_calls w"
  by (auto simp: manifest_args_def new_list_def list_iadd_def Let_def)

lemma invoke_nonempty:
  assumes pc: "project_callbacks ext self = (Inr pcbs, self1)"
      and ne: "heap w a \<noteq> []"
  shows "invoke ext self (Some a) None w =
     (let xs = heap w a;
          ys = xs @ (if ''--project-dir'' \<notin> set xs
                     then [''--project-dir'', OpenDbtCli.project_dir self] else []);
          zs = ys @ (if ''--profiles-dir'' \<notin> set ys \<and> OpenDbtCli.profiles_dir self \<noteq> None
                     then [''--profiles-dir'', the (OpenDbtCli.profiles_dir self)] else []);
          w3 = w\<lparr>heap := (heap w)(a := zs)\<rparr>
      in (fst (OpenDbtCli_run ext zs (Some pcbs) w3), self1,
          snd (OpenDbtCli_run ext zs (Some pcbs) w3)))"
proof -
  from project_callbacks_dirs[OF pc]
  have dirs: "OpenDbtCli.project_dir self1 = OpenDbtCli.project_dir self"
    "OpenDbtCli.profiles_dir self1 = OpenDbtCli.profiles_dir self" by simp_all
  have ao: "args_or_empty (Some a) w = (a, w)"
    using ne by (simp add: args_or_empty_def truthy_ref_def)
  have same: "w\<lparr>heap := (heap w)(a := heap w a)\<rparr> = w" by simp
  show ?thesis
    using pc ao dirs
    by (simp add: invoke_def Let_def list_iadd_def truthy_def case_prod_unfold same)
qed

lemma OpenDbtCli_run_outcome:
  "fst (OpenDbtCli_run ext a (Some cbs) w) =
     (let res = dbt_invoke ext cbs a
      in if success res then Inr res
         else (case exception res of
                 Some e \<Rightarrow> Inl e
               | None \<Rightarrow> Inl (raise_from_result (result res))))"
  by (cases cbs) (simp_all add: OpenDbtCli_run_def Let_def truthy_def split: option.splits)

lemma manifest_resolved:
  assumes "project_callbacks ext self = (Inr pcbs, self1)"
  shows
    "let cmd = [''parse''] @ (if pp then [''--partial-parse''] else []) @
               (if nw then [''--no-write-json''] else []) @
               [''--project-dir'', OpenDbtCli.project_dir self] @
               (if OpenDbtCli.profiles_dir self \<noteq> None \<and>
                   OpenDbtCli.project_dir self \<noteq> ''--profiles-dir''
                then [''--profiles-dir'', the (OpenDbtCli.profiles_dir self)] else []);
         res = dbt_invoke ext pcbs cmd;
         out = manifest ext self pp nw w
     in dbt_calls (snd (snd out)) = dbt_calls w @ [cmd] \<and>
        (\<forall>m. fst out = Inr m \<longleftrightarrow> success res \<and> result res = ResultManifest m) \<and>
        (success res \<and> (\<forall>m. result res \<noteq> ResultManifest m) \<longrightarrow>
           fst out = Inl (PyException (no_manifest_msg ext (result res)) None)) \<and>
        (\<not> success res \<longrightarrow>
           fst out = Inl (case exception res of
                            Some e \<Rightarrow> e
                          | None \<Rightarrow> raise_from_result (result res)))"
proof -
  obtain a w1 where ma: "manifest_args pp nw w = (a, w1)" by (cases "manifest_args pp nw w")
  from manifest_args_contents[OF ma]
  have h: "heap w1 a = [''parse''] @ (if pp then [''--partial-parse''] else []) @
                 (if nw then [''--no-write-json''] else [])"
    and d: "dbt_calls w1 = dbt_calls w" by simp_all
  then have ne: "heap w1 a \<noteq> []" by simp
  define cmd where "cmd = [''parse''] @ (if pp then [''--partial-parse''] else []) @
               (if nw then [''--no-write-json''] else []) @
               [''--project-dir'', OpenDbtCli.project_dir self] @
               (if OpenDbtCli.profiles_dir self \<noteq> None \<and>
                   OpenDbtCli.project_dir self \<noteq> ''--profiles-dir''
                then [''--profiles-dir'', the (OpenDbtCli.profiles_dir self)] else [])"
  define w3 where "w3 = w1\<lparr>heap := (heap w1)(a := cmd)\<rparr>"
  define res where "res = dbt_invoke ext pcbs cmd"
  have inv: "invoke ext self (Some a) None w1 =
      (fst (OpenDbtCli_run ext cmd (Some pcbs) w3), self1,
       snd (OpenDbtCli_run ext cmd (Some pcbs) w3))"
    unfolding invoke_nonempty[OF assms ne] cmd_def w3_def h
    by (cases pp; cases nw) (auto simp: Let_def)
  have calls: "dbt_calls (snd (OpenDbtCli_run ext cmd (Some pcbs) w3)) = dbt_calls w @ [cmd]"
    by (simp add: dbt_calls_OpenDbtCli_run w3_def d)
  have out: "fst (OpenDbtCli_run ext cmd (Some pcbs) w3) =
      (if success res then Inr res
       else (case exception res of
               Some e \<Rightarrow> Inl e
             | None \<Rightarrow> Inl (raise_from_result (result res))))"
    by (simp add: OpenDbtCli_run_outcome res_def Let_def cong: option.case_cong)
  have m: "manifest ext self pp nw w =
      (case fst (OpenDbtCli_run ext cmd (Some pcbs) w3) of
         Inl e \<Rightarrow> (Inl e, self1, snd (OpenDbtCli_run ext cmd (Some pcbs) w3))
       | Inr r \<Rightarrow>
           (case result r of
              ResultManifest m \<Rightarrow> (Inr m, self1, snd (OpenDbtCli_run ext cmd (Some pcbs) w3))
            | other \<Rightarrow> (Inl (PyException (no_manifest_msg ext other) None), self1,
                        snd (OpenDbtCli_run ext cmd (Some pcbs) w3))))"
    by (simp add: manifest_def ma inv split: sum.splits)
  have c1: "dbt_calls (snd (snd (manifest ext self pp nw w))) = dbt_calls w @ [cmd]"
    unfolding m using calls by (simp split: sum.splits dbt_result.splits)
  have c2: "\<forall>m. fst (manifest ext self pp nw w) = Inr m \<longleftrightarrow>
                success res \<and> result res = ResultManifest m"
    unfolding m out by (auto split: option.splits dbt_result.splits)
  have c3: "success res \<and> (\<forall>m. result res \<noteq> ResultManifest m) \<longrightarrow>
           fst (manifest ext self pp nw w)
             = Inl (PyException (no_manifest_msg ext (result res)) None)"
    unfolding m out by (auto split: option.splits dbt_result.splits)
  have c4: "\<not> success res \<longrightarrow>
           fst (manifest ext self pp nw w)
             = Inl (case exception res of
                      Some e \<Rightarrow> e
                    | None \<Rightarrow> raise_from_result (result res))"
    unfolding m out by (auto split: option.splits dbt_result.splits)
  show ?thesis
    using c1 c2 c3 c4 unfolding Let_def cmd_def res_def by blast
qed

lemma manifest_unresolved:
  assumes "project_callbacks ext self = (Inl e, self1)"
  shows "fst (manifest ext self pp nw w) = Inl e \<and>
         dbt_calls (snd (snd (manifest ext self pp nw w))) = dbt_calls w"
proof -
  obtain a w1 where ma: "manifest_args pp nw w = (a, w1)" by (cases "manifest_args pp nw w")
  from manifest_args_contents[OF ma] have d: "dbt_calls w1 = dbt_calls w" by simp
  have "invoke ext self (Some a) None w1 = (Inl e, self1, w1)"
    using assms by (simp add: invoke_def)
  then show ?thesis
    using d by (simp add: manifest_def ma)
qed

text \<open>
  C6, as the code has it. \<open>manifest\<close> first reads the project's callbacks, inside
  \<open>invoke\<close>. When that raises, \<open>manifest\<close> raises the same exception and the base tool
  is not called. Otherwise the base tool is called once, with the command \<^verbatim>\<open>parse\<close>,
  followed by \<^verbatim>\<open>--partial-parse\<close> exactly when \<open>partial_parse\<close> is set and by
  \<^verbatim>\<open>--no-write-json\<close> exactly when \<open>no_write_manifest\<close> is set, and then by the directory
  options that \<open>invoke\<close> adds. \<open>manifest\<close> returns the payload of the invocation exactly
  when the invocation succeeds and its payload is a manifest; for a successful invocation
  with another payload it raises an \<^verbatim>\<open>Exception\<close>, and for a failed invocation it raises
  what \<open>run\<close> raises.
\<close>

theorem manifest_parse:
  "let cmd = [''parse''] @ (if pp then [''--partial-parse''] else []) @
             (if nw then [''--no-write-json''] else []) @
             [''--project-dir'', OpenDbtCli.project_dir self] @
             (if OpenDbtCli.profiles_dir self \<noteq> None \<and>
                 OpenDbtCli.project_dir self \<noteq> ''--profiles-dir''
              then [''--profiles-dir'', the (OpenDbtCli.profiles_dir self)] else []);
       out = manifest ext self pp nw w
   in (case fst (project_callbacks ext self) of
         Inl e \<Rightarrow> fst out = Inl e \<and> dbt_calls (snd (snd out)) = dbt_calls w
       | Inr pcbs \<Rightarrow>
           dbt_calls (snd (snd out)) = dbt_calls w @ [cmd] \<and>
           (\<forall>m. fst out = Inr m \<longleftrightarrow>
                  success (dbt_invoke ext pcbs cmd) \<and>
                  result (dbt_invoke ext pcbs cmd) = ResultManifest m) \<and>
           (success (dbt_invoke ext pcbs cmd) \<and>
            (\<forall>m. result (dbt_invoke ext pcbs cmd) \<noteq> ResultManifest m) \<longrightarrow>
              fst out = Inl (PyException
                               (no_manifest_msg ext (result (dbt_invoke ext pcbs cmd))) None)) \<and>
           (\<not> success (dbt_invoke ext pcbs cmd) \<longrightarrow>
              fst out = Inl (case exception (dbt_invoke ext pcbs cmd) of
                               Some e \<Rightarrow> e
                             | None \<Rightarrow> raise_from_result (result (dbt_invoke ext pcbs cmd)))))"
proof (cases "project_callbacks ext self")
  case (Pair r self1)
  show ?thesis
  proof (cases r)
    case (Inl e)
    with Pair have pc: "project_callbacks ext self = (Inl e, self1)" by simp
    from manifest_unresolved[OF pc, of pp nw w] pc show ?thesis
      by (simp add: Let_def)
  next
    case (Inr pcbs)
    with Pair have pc: "project_callbacks ext self = (Inr pcbs, self1)" by simp
    from manifest_resolved[OF pc, of pp nw w] pc show ?thesis
      by (simp add: Let_def)
  qed
qed

theorem manifest_parse_witness:
  "fst (project_callbacks example_ext example_cli) = Inr [0, 1, 2] \<and>
   dbt_calls (snd (snd (manifest example_ext example_cli True False example_world))) =
     [[''parse'', ''--partial-parse'', ''--project-dir'', ''/proj'', ''--profiles-dir'', ''/prof'']] \<and>
   fst (manifest example_ext example_cli True False example_world) = Inr 7"
proof -
  have pc: "fst (project_callbacks example_ext example_cli) = Inr [0, 1, 2]"
    by (simp add: project_callbacks_def project_vars_def project_def vars_of_def truthy_def
        example_ext_def example_cli_def)
  have d: "dbt_calls example_world = []"
    "OpenDbtCli.project_dir example_cli = ''/proj''"
    "OpenDbtCli.profiles_dir example_cli = Some ''/prof''"
    by (simp_all add: example_world_def example_cli_def)
  have r: "dbt_invoke example_ext cbs
             [''parse'', ''--partial-parse'', ''--project-dir'', ''/proj'', ''--profiles-dir'',
              ''/prof'']
           = \<lparr>success = True, exception = None, result = ResultManifest 7\<rparr>" for cbs
    by (simp add: example_ext_def)
  show ?thesis
    using pc manifest_parse [of True False example_cli example_ext example_world]
    by (simp add: Let_def d r)
qed

text \<open>
  C6 as stated fails: when a callback named by the project cannot be imported,
  \<open>manifest\<close> raises before the base tool is called, with either setting of the options.
\<close>

theorem manifest_parse_counterexample:
  "dbt_calls example_world = [] \<and>
   fst (manifest broken_ext example_cli True True example_world)
     = Inl (ModuleNotFoundError ''pkg.one'') \<and>
   dbt_calls (snd (snd (manifest broken_ext example_cli True True example_world))) = []"
proof -
  have pc: "project_callbacks broken_ext example_cli
     = (Inl (ModuleNotFoundError ''pkg.one''), snd (project_callbacks broken_ext example_cli))"
    by (simp add: project_callbacks_def project_vars_def project_def vars_of_def truthy_def
        broken_ext_def example_ext_def example_cli_def)
  have d: "dbt_calls example_world = []"
    by (simp add: example_world_def)
  from manifest_unresolved[OF pc, of True True example_world] d show ?thesis by simp
qed




lemma project_callbacks_load_fails:
  assumes "priv_project_callbacks self = None"
      and "fst (project ext self) = Inl e"
  shows "fst (project_callbacks ext self) = Inl e"
proof -
  let ?s = "self\<lparr>priv_project_callbacks := Some (priv_user_callbacks self)\<rparr>"
  have "fst (project_vars ext ?s) = Inl e"
    using assms(2)
    by (auto simp: project_vars_def project_def split: option.splits sum.splits)
  then obtain s1 where "project_vars ext ?s = (Inl e, s1)"
    by (cases "project_vars ext ?s") auto
  then show ?thesis
    using assms(1) by (simp add: project_callbacks_def truthy_def)
qed




text \<open>
  A project file with the key \<^verbatim>\<open>vars\<close> and no value defines no variable
  \<^verbatim>\<open>dbt_callbacks\<close>. \<open>project_vars\<close> is then \<open>None\<close>, not a dictionary, and the first
  access raises \<^verbatim>\<open>TypeError\<close>; with the key left out it is the user list.
\<close>

lemma project_callbacks_empty_vars:
  "vars_of \<lparr>project_dict = [''vars'' \<mapsto> None]\<rparr> = None \<and>
   vars_of \<lparr>project_dict = Map.empty\<rparr> = Some Map.empty \<and>
   (case fst (project_callbacks empty_vars_ext example_cli) of
      Inl e \<Rightarrow> is_TypeError e
    | Inr cbs \<Rightarrow> False) \<and>
   fst (project_callbacks
          (example_ext\<lparr>from_project_root := (\<lambda>d. Inr \<lparr>project_dict = Map.empty\<rparr>)\<rparr>)
          example_cli) = Inr [0]"
  by (simp add: project_callbacks_def project_vars_def project_def vars_of_def truthy_def
      empty_vars_ext_def example_ext_def example_cli_def)

lemma raise_first_error_find:
  "raise_first_error rs =
     DbtRuntimeError
       (case find (\<lambda>r. status r = ''error'') rs of
          Some r \<Rightarrow> message r
        | None \<Rightarrow> Some ''DBT execution failed!'')"
  by (induction rs) (simp_all add: Let_def)

lemma OpenDbtCli_run_returns_iff_success:
  "fst (OpenDbtCli_run ext a (Some cbs) w) = Inr r \<longleftrightarrow>
     success (dbt_invoke ext cbs a) \<and> r = dbt_invoke ext cbs a"
  by (auto simp: OpenDbtCli_run_outcome Let_def split: option.splits)

lemma OpenDbtCli_run_reraises:
  "\<not> success (dbt_invoke ext cbs a) \<Longrightarrow> exception (dbt_invoke ext cbs a) = Some e \<Longrightarrow>
     fst (OpenDbtCli_run ext a (Some cbs) w) = Inl e"
  by (simp add: OpenDbtCli_run_outcome Let_def)

lemma OpenDbtCli_run_run_results:
  "\<not> success (dbt_invoke ext cbs a) \<Longrightarrow> exception (dbt_invoke ext cbs a) = None \<Longrightarrow>
   result (dbt_invoke ext cbs a) = ResultRunExecution rs \<Longrightarrow>
     fst (OpenDbtCli_run ext a (Some cbs) w) =
       Inl (DbtRuntimeError
              (case find (\<lambda>r. status r = ''error'') rs of
                 Some r \<Rightarrow> message r
               | None \<Rightarrow> Some ''DBT execution failed!''))"
  by (simp add: OpenDbtCli_run_outcome Let_def raise_from_result_def raise_first_error_find)

text \<open>
  C1 at a failing \<^verbatim>\<open>debug\<close>: the base tool reports no success, no exception and the
  payload \<open>False\<close>. \<open>run\<close> iterates over the payload and raises \<^verbatim>\<open>TypeError\<close>, not the
  \<^verbatim>\<open>DbtRuntimeError\<close> that the last line of the function is there for.
\<close>

theorem OpenDbtCli_run_boolean_payload:
  "\<not> success (dbt_invoke example_ext [] [''debug'']) \<and>
   exception (dbt_invoke example_ext [] [''debug'']) = None \<and>
   fst (OpenDbtCli_run example_ext [''debug''] None example_world)
     = Inl (TypeError ''bool object is not iterable'') \<and>
   \<not> is_DbtRuntimeError (TypeError ''bool object is not iterable'')"
  by (simp add: OpenDbtCli_run_def Let_def truthy_def raise_from_result_def example_ext_def)

section \<open>Properties of OpenDbtLogger\<close>

lemma log_cached: "priv_log self = Some l \<Longrightarrow> log self lg = (l, self, lg)"
  by (simp add: log_def)

lemma log_accesses_cached:
  "priv_log self = Some l \<Longrightarrow> log_accesses n self lg = (replicate n l, self, lg)"
  by (induction n) (simp_all add: log_cached)

lemma log_first:
  assumes "priv_log self = None"
  shows "fst (log self lg) = ''opendbt''"
    and "priv_log (fst (snd (log self lg))) = Some ''opendbt''"
  using assms by (simp_all add: log_def getLogger_def split: option.splits)

lemma log_handlers:
  "handlers_of ''opendbt'' (snd (snd (log self lg))) = handlers_of ''opendbt'' lg \<or>
   (priv_log self = None \<and> \<not> hasHandlers ''opendbt'' (snd (getLogger ''opendbt'' lg)) \<and>
    handlers_of ''opendbt'' lg = [] \<and>
    handlers_of ''opendbt'' (snd (snd (log self lg)))
      = [StreamHandler ''sys.stdout'' log_format INFO])"
  by (auto simp: log_def getLogger_def hasHandlers_def addHandler_def handlers_of_def
      split: option.splits)

text \<open>
  C7. Starting from an instance that has not been accessed, every access of \<open>log\<close>
  returns the same logger, the one named \<^verbatim>\<open>opendbt\<close>. Only the first access initialises:
  it stores the logger in the instance, and from then on an access returns the stored
  logger and changes nothing, whatever the logging module holds by then (also when the
  handlers have been removed in between). The first access adds exactly one stream handler
  when the logger has no handlers by the test of \<^verbatim>\<open>hasHandlers\<close>, and none when it has.
\<close>

theorem log_singleton:
  assumes "priv_log self = None"
      and "log_accesses (Suc n) self lg = (ls, self1, lg1)"
  shows "ls = replicate (Suc n) ''opendbt'' \<and>
         (self1, lg1) = snd (log self lg) \<and>
         priv_log self1 = Some ''opendbt'' \<and>
         (\<forall>lg'. log self1 lg' = (''opendbt'', self1, lg')) \<and>
         (\<forall>k lg'. log_accesses k self1 lg' = (replicate k ''opendbt'', self1, lg')) \<and>
         log self1 lg1 = (''opendbt'', self1, lg1) \<and>
         (handlers_of ''opendbt'' lg1 = handlers_of ''opendbt'' lg \<or>
          (handlers_of ''opendbt'' lg = [] \<and>
           handlers_of ''opendbt'' lg1 = [StreamHandler ''sys.stdout'' log_format INFO])) \<and>
         (handlers_of ''opendbt'' lg \<noteq> [] \<longrightarrow> lg1 = lg) \<and>
         (hasHandlers ''opendbt'' (snd (getLogger ''opendbt'' lg)) \<longrightarrow>
            handlers_of ''opendbt'' lg1 = handlers_of ''opendbt'' lg) \<and>
         (\<not> hasHandlers ''opendbt'' (snd (getLogger ''opendbt'' lg)) \<longrightarrow>
            handlers_of ''opendbt'' lg1 = [StreamHandler ''sys.stdout'' log_format INFO])"
proof -
  obtain s1 g1 where first: "log self lg = (''opendbt'', s1, g1)"
    using log_first(1)[OF assms(1), of lg] by (cases "log self lg") auto
  have cached: "priv_log s1 = Some ''opendbt''"
    using log_first(2)[OF assms(1), of lg] first by simp
  have rest: "log_accesses n s1 g1 = (replicate n ''opendbt'', s1, g1)"
    using cached by (rule log_accesses_cached)
  from assms(2) first rest
  have r: "ls = replicate (Suc n) ''opendbt''" "self1 = s1" "lg1 = g1" by simp_all
  have later: "\<forall>lg'. log self1 lg' = (''opendbt'', self1, lg')"
    using cached r by (simp add: log_cached)
  have later_many: "\<forall>k lg'. log_accesses k self1 lg' = (replicate k ''opendbt'', self1, lg')"
    using cached r by (simp add: log_accesses_cached)
  have h: "handlers_of ''opendbt'' g1 = handlers_of ''opendbt'' lg \<or>
          (handlers_of ''opendbt'' lg = [] \<and>
           handlers_of ''opendbt'' g1 = [StreamHandler ''sys.stdout'' log_format INFO])"
    using log_handlers[of self lg] first by auto
  have same: "handlers_of ''opendbt'' lg \<noteq> [] \<longrightarrow> g1 = lg"
    using assms(1) first
    by (auto simp: log_def getLogger_def hasHandlers_def handlers_of_def split: option.splits)
  have has: "hasHandlers ''opendbt'' (snd (getLogger ''opendbt'' lg)) \<longrightarrow>
            handlers_of ''opendbt'' g1 = handlers_of ''opendbt'' lg"
    using assms(1) first
    by (cases "loggers lg ''opendbt''")
       (auto simp: log_def getLogger_def hasHandlers_def addHandler_def handlers_of_def
         split: if_splits)
  have hasnt: "\<not> hasHandlers ''opendbt'' (snd (getLogger ''opendbt'' lg)) \<longrightarrow>
            handlers_of ''opendbt'' g1 = [StreamHandler ''sys.stdout'' log_format INFO]"
    using assms(1) first
    by (cases "loggers lg ''opendbt''")
       (auto simp: log_def getLogger_def hasHandlers_def addHandler_def handlers_of_def
         split: if_splits)
  show ?thesis using r first cached later later_many h same has hasnt by simp
qed

theorem log_singleton_witness:
  "priv_log \<lparr>priv_log = None\<rparr> = None \<and>
   log_accesses (Suc 2) \<lparr>priv_log = None\<rparr> (logging_module example_world)
     = (replicate (Suc 2) ''opendbt'', snd (log \<lparr>priv_log = None\<rparr> (logging_module example_world))) \<and>
   handlers_of ''opendbt'' (logging_module example_world) = [] \<and>
   handlers_of ''opendbt'' (snd (snd (log \<lparr>priv_log = None\<rparr> (logging_module example_world))))
     = [StreamHandler ''sys.stdout'' log_format INFO] \<and>
   log \<lparr>priv_log = Some ''opendbt''\<rparr> (logging_module example_world)
     = (''opendbt'', \<lparr>priv_log = Some ''opendbt''\<rparr>, logging_module example_world)"
proof -
  have a: "priv_log \<lparr>priv_log = None\<rparr> = None" by simp
  have b: "log_accesses (Suc 2) \<lparr>priv_log = None\<rparr> (logging_module example_world)
     = (replicate (Suc 2) ''opendbt'', \<lparr>priv_log = Some ''opendbt''\<rparr>,
        snd (snd (log \<lparr>priv_log = None\<rparr> (logging_module example_world))))"
    by (simp add: log_def getLogger_def hasHandlers_def addHandler_def numeral_2_eq_2
        example_world_def)
  have c: "\<not> hasHandlers ''opendbt'' (snd (getLogger ''opendbt'' (logging_module example_world)))"
    by (simp add: getLogger_def hasHandlers_def example_world_def)
  have d: "handlers_of ''opendbt'' (logging_module example_world) = []"
    by (simp add: handlers_of_def example_world_def)
  from log_singleton [OF a b]
  have "handlers_of ''opendbt'' (snd (snd (log \<lparr>priv_log = None\<rparr> (logging_module example_world))))
          = [StreamHandler ''sys.stdout'' log_format INFO]"
    and "log \<lparr>priv_log = Some ''opendbt''\<rparr> (logging_module example_world)
          = (''opendbt'', \<lparr>priv_log = Some ''opendbt''\<rparr>, logging_module example_world)"
    and "(\<lparr>priv_log = Some ''opendbt''\<rparr>,
          snd (snd (log \<lparr>priv_log = None\<rparr> (logging_module example_world))))
          = snd (log \<lparr>priv_log = None\<rparr> (logging_module example_world))"
    using c by blast+
  then show ?thesis using a b d by simp
qed

section \<open>Properties of the argument lists as objects\<close>

lemma invoke_heap_other:
  "r \<noteq> a \<Longrightarrow> r < next_ref w \<Longrightarrow>
     heap (snd (snd (invoke ext c (Some a) cbs w))) r = heap w r"
  by (cases "project_callbacks ext c")
     (auto simp: invoke_def args_or_empty_def truthy_ref_def new_list_def list_iadd_def
       heap_OpenDbtCli_run Let_def case_prod_unfold split: sum.splits)

lemma invoke_heap_self:
  assumes "project_callbacks ext c = (Inr pcbs, c1)"
      and "heap w r \<noteq> []"
  shows "heap (snd (snd (invoke ext c (Some r) cbs w))) r =
           (let ys = heap w r @
                     (if ''--project-dir'' \<notin> set (heap w r)
                      then [''--project-dir'', OpenDbtCli.project_dir c] else [])
            in ys @ (if ''--profiles-dir'' \<notin> set ys \<and> OpenDbtCli.profiles_dir c \<noteq> None
                     then [''--profiles-dir'', the (OpenDbtCli.profiles_dir c)] else []))"
proof -
  from project_callbacks_dirs[OF assms(1)]
  have dirs: "OpenDbtCli.project_dir c1 = OpenDbtCli.project_dir c"
    "OpenDbtCli.profiles_dir c1 = OpenDbtCli.profiles_dir c" by simp_all
  have ao: "args_or_empty (Some r) w = (r, w)"
    using assms(2) by (simp add: args_or_empty_def truthy_ref_def)
  show ?thesis
    using assms(1) ao dirs
    by (simp add: invoke_def Let_def list_iadd_def heap_OpenDbtCli_run case_prod_unfold)
qed

lemma log_info_world:
  "heap (snd (log_info self w)) = heap w \<and> next_ref (snd (log_info self w)) = next_ref w \<and>
   dbt_calls (snd (log_info self w)) = dbt_calls w \<and>
   subprocess_calls (snd (log_info self w)) = subprocess_calls w"
  by (simp add: log_info_def case_prod_unfold)

lemma assemble_run_args_caller:
  assumes "heap w r \<noteq> []" and "r < next_ref w"
  shows "heap (snd (assemble_run_args self command tgt (Some r) write_json w)) r =
           heap w r @ [''--target'', target_or_default tgt (target self),
                       ''--project-dir'', project_dir self] @
           (if profiles_dir self \<noteq> None then [''--profiles-dir'', the (profiles_dir self)]
            else [])"
    and "next_ref (snd (assemble_run_args self command tgt (Some r) write_json w))
           = Suc (next_ref w)"
    and "fst (assemble_run_args self command tgt (Some r) write_json w) = Inr a
           \<Longrightarrow> a = next_ref w"
  using assms
  by (auto simp: assemble_run_args_def args_or_empty_def truthy_ref_def new_list_def
      list_iadd_def list_remove_def Let_def split: if_splits)

text \<open>
  C8, as the code has it. \<open>invoke\<close> reads the project's callbacks before it touches the
  arguments. When that succeeds, a non-empty list passed as \<open>args\<close> that lacks
  \<^verbatim>\<open>--project-dir\<close> is extended in place: after the call the caller's own list object
  holds its old elements followed by the options, and it is this list that went to the
  base tool. \<open>OpenDbtProject.run\<close> appends \<^verbatim>\<open>--target\<close>, \<^verbatim>\<open>--project-dir\<close> and, when
  configured, \<^verbatim>\<open>--profiles-dir\<close> to the caller's own list object for every non-empty
  list passed as \<open>args\<close>, whatever happens later in the call.
\<close>

theorem caller_list_extended_in_place:
  assumes "heap w r \<noteq> []"
  shows "(''--project-dir'' \<notin> set (heap w r) \<and> fst (project_callbacks ext c) = Inr pcbs \<longrightarrow>
            heap (snd (snd (invoke ext c (Some r) cbs w))) r =
              heap w r @ [''--project-dir'', OpenDbtCli.project_dir c] @
              (if OpenDbtCli.profiles_dir c \<noteq> None \<and>
                  ''--profiles-dir'' \<notin> set (heap w r @ [OpenDbtCli.project_dir c])
               then [''--profiles-dir'', the (OpenDbtCli.profiles_dir c)] else []) \<and>
            dbt_calls (snd (snd (invoke ext c (Some r) cbs w))) =
              dbt_calls w @ [heap (snd (snd (invoke ext c (Some r) cbs w))) r]) \<and>
         (r < next_ref w \<longrightarrow>
            heap (snd (snd (OpenDbtProject_run ext self command tgt (Some r)
                              use_subprocess write_json w))) r =
              heap w r @ [''--target'', target_or_default tgt (target self),
                          ''--project-dir'', project_dir self] @
              (if profiles_dir self \<noteq> None then [''--profiles-dir'', the (profiles_dir self)]
               else []))"
proof -
  have inv: "heap (snd (snd (invoke ext c (Some r) cbs w))) r =
              heap w r @ [''--project-dir'', OpenDbtCli.project_dir c] @
              (if OpenDbtCli.profiles_dir c \<noteq> None \<and>
                  ''--profiles-dir'' \<notin> set (heap w r @ [OpenDbtCli.project_dir c])
               then [''--profiles-dir'', the (OpenDbtCli.profiles_dir c)] else []) \<and>
            dbt_calls (snd (snd (invoke ext c (Some r) cbs w))) =
              dbt_calls w @ [heap (snd (snd (invoke ext c (Some r) cbs w))) r]"
    if a: "''--project-dir'' \<notin> set (heap w r) \<and> fst (project_callbacks ext c) = Inr pcbs"
  proof -
    from a obtain c1 where pc: "project_callbacks ext c = (Inr pcbs, c1)"
      by (cases "project_callbacks ext c") auto
    have h: "heap (snd (snd (invoke ext c (Some r) cbs w))) r =
              heap w r @ [''--project-dir'', OpenDbtCli.project_dir c] @
              (if OpenDbtCli.profiles_dir c \<noteq> None \<and>
                  ''--profiles-dir'' \<notin> set (heap w r @ [OpenDbtCli.project_dir c])
               then [''--profiles-dir'', the (OpenDbtCli.profiles_dir c)] else [])"
      using invoke_heap_self[OF pc assms, of cbs] a by (auto simp: Let_def)
    have f: "dbt_calls (snd (snd (invoke ext c (Some r) cbs w))) =
             dbt_calls w @ [heap (snd (snd (invoke ext c (Some r) cbs w))) r]"
      unfolding h using invoke_dbt_calls[of ext c "Some r" cbs w] pc a
      by (auto simp: contents_def Let_def)
    from h f show ?thesis by simp
  qed
  have run: "heap (snd (snd (OpenDbtProject_run ext self command tgt (Some r)
                              use_subprocess write_json w))) r =
              heap w r @ [''--target'', target_or_default tgt (target self),
                          ''--project-dir'', project_dir self] @
              (if profiles_dir self \<noteq> None then [''--profiles-dir'', the (profiles_dir self)]
               else [])"
    if lt: "r < next_ref w"
  proof -
    let ?A = "assemble_run_args self command tgt (Some r) write_json w"
    note asm = assemble_run_args_caller[OF assms lt, of self command tgt write_json]
    show ?thesis
    proof (cases "fst ?A")
      case (Inl e)
      then have "OpenDbtProject_run ext self command tgt (Some r) use_subprocess write_json w
                   = (Inl e, self, snd ?A)"
        by (cases ?A) (simp add: OpenDbtProject_run_def)
      then show ?thesis using asm(1) by simp
    next
      case (Inr a)
      then have a: "a = next_ref w" by (rule asm(3))
      have ne: "r \<noteq> a" using a lt by simp
      have lt2: "r < next_ref (snd (log_info self (snd ?A)))"
        using asm(2) lt by (simp add: log_info_world)
      have A: "?A = (Inr a, snd ?A)" using Inr by (cases ?A) simp
      show ?thesis
      proof (cases use_subprocess)
        case True
        then show ?thesis
          using asm(1)
          by (subst OpenDbtProject_run_def, subst A)
             (simp add: Let_def case_prod_unfold log_info_world split: option.splits)
      next
        case False
        then show ?thesis
          using asm(1)
            invoke_heap_other[OF ne lt2, of ext "cli (fst (log_info self (snd ?A)))" None]
          by (subst OpenDbtProject_run_def, subst A)
             (simp add: Let_def case_prod_unfold log_info_world)
      qed
    qed
  qed
  from inv run show ?thesis by blast
qed

theorem caller_list_extended_in_place_witness:
  "heap example_world 0 \<noteq> [] \<and> ''--project-dir'' \<notin> set (heap example_world 0) \<and>
   fst (project_callbacks example_ext example_cli) = Inr [0, 1, 2] \<and>
   0 < next_ref example_world \<and>
   heap (snd (snd (invoke example_ext example_cli (Some 0) None example_world))) 0 =
     [''run'', ''--project-dir'', ''/proj'', ''--profiles-dir'', ''/prof''] \<and>
   dbt_calls (snd (snd (invoke example_ext example_cli (Some 0) None example_world))) =
     [[''run'', ''--project-dir'', ''/proj'', ''--profiles-dir'', ''/prof'']] \<and>
   heap (snd (snd (OpenDbtProject_run example_ext example_project ''build'' None (Some 0)
                     False False example_world))) 0 =
     [''run'', ''--target'', ''dev'', ''--project-dir'', ''/proj'']"
proof -
  have a: "heap example_world 0 \<noteq> []"
    by (simp add: example_world_def)
  have b: "''--project-dir'' \<notin> set (heap example_world 0)"
    by (simp add: example_world_def)
  have c: "fst (project_callbacks example_ext example_cli) = Inr [0, 1, 2]"
    by (simp add: project_callbacks_def project_vars_def project_def vars_of_def truthy_def
        example_ext_def example_cli_def)
  have d: "0 < next_ref example_world"
    by (simp add: example_world_def)
  have e: "heap example_world 0 = [''run'']" "dbt_calls example_world = []"
    by (simp_all add: example_world_def)
  have f: "OpenDbtCli.project_dir example_cli = ''/proj''"
    "OpenDbtCli.profiles_dir example_cli = Some ''/prof''"
    by (simp_all add: example_cli_def)
  have g: "target example_project = ''dev''" "project_dir example_project = ''/proj''"
    "profiles_dir example_project = None"
    by (simp_all add: example_project_def DEFAULT_TARGET_def)
  from caller_list_extended_in_place
         [OF a, where ext = example_ext and c = example_cli and pcbs = "[0, 1, 2]"
            and cbs = None and self = example_project and command = "''build''"
            and tgt = None and use_subprocess = False and write_json = False]
       a b c d
  show ?thesis by (simp add: e f g target_or_default_def)
qed

text \<open>
  C8 as stated fails for \<open>invoke\<close>: when a callback named by the project cannot be
  imported, \<open>invoke\<close> raises before it reaches the arguments, and the caller's list, which
  is non-empty and lacks \<^verbatim>\<open>--project-dir\<close>, is as it was.
\<close>

theorem caller_list_extended_in_place_counterexample:
  "heap example_world 0 = [''run''] \<and>
   ''--project-dir'' \<notin> set (heap example_world 0) \<and>
   fst (invoke broken_ext example_cli (Some 0) None example_world)
     = Inl (ModuleNotFoundError ''pkg.one'') \<and>
   heap (snd (snd (invoke broken_ext example_cli (Some 0) None example_world))) 0 = [''run'']"
  by (simp add: invoke_def project_callbacks_def project_vars_def project_def vars_of_def
      truthy_def broken_ext_def example_ext_def example_cli_def example_world_def)

lemma assemble_run_args_write_json:
  assumes "assemble_run_args self command tgt arguments False w = (Inr a, w5)"
  shows "assemble_run_args self command tgt arguments True w =
           (case list_remove a ''--no-write-json'' w5 of
              (Some e, w6) \<Rightarrow> (Inl e, w6)
            | (None, w6) \<Rightarrow> (Inr a, w6))"
  using assms by (auto simp: assemble_run_args_def Let_def case_prod_unfold)

lemma list_ops_calls:
  "dbt_calls (list_iadd r xs w) = dbt_calls w"
  "subprocess_calls (list_iadd r xs w) = subprocess_calls w"
  "dbt_calls (snd (new_list xs w)) = dbt_calls w"
  "subprocess_calls (snd (new_list xs w)) = subprocess_calls w"
  "dbt_calls (snd (list_remove r x w)) = dbt_calls w"
  "subprocess_calls (snd (list_remove r x w)) = subprocess_calls w"
  "dbt_calls (snd (args_or_empty a0 w)) = dbt_calls w"
  "subprocess_calls (snd (args_or_empty a0 w)) = subprocess_calls w"
  by (simp_all add: list_iadd_def new_list_def list_remove_def args_or_empty_def)

lemma assemble_run_args_calls:
  "dbt_calls (snd (assemble_run_args self command tgt arguments write_json w)) = dbt_calls w \<and>
   subprocess_calls (snd (assemble_run_args self command tgt arguments write_json w))
     = subprocess_calls w"
  by (simp add: assemble_run_args_def Let_def case_prod_unfold list_ops_calls
      split: option.splits)

lemma assemble_run_args_list:
  assumes "args self < next_ref w"
      and "assemble_run_args self command tgt arguments False w = (Inr a, w5)"
  shows "heap w5 a =
           [command] @ contents arguments w @
           ([''--target'', target_or_default tgt (target self), ''--project-dir'', project_dir self] @
            (case profiles_dir self of None \<Rightarrow> [] | Some d \<Rightarrow> [''--profiles-dir'', d])) @
           (if truthy_ref arguments w \<and> arguments = Some (args self)
            then heap w (args self) @
                 ([''--target'', target_or_default tgt (target self),
                   ''--project-dir'', project_dir self] @
                  (case profiles_dir self of None \<Rightarrow> [] | Some d \<Rightarrow> [''--profiles-dir'', d]))
            else heap w (args self))"
proof (cases "truthy_ref arguments w")
  case True
  then obtain r where r: "arguments = Some r" "heap w r \<noteq> []"
    by (auto simp: truthy_ref_def split: option.splits)
  then have ao: "args_or_empty (Some r) w = (r, w)"
    by (simp add: args_or_empty_def truthy_ref_def)
  show ?thesis
    using assms r unfolding r(1)
    by (cases "profiles_dir self")
       (auto simp: assemble_run_args_def ao new_list_def list_iadd_def Let_def contents_def
         truthy_ref_def)
next
  case False
  then have ao: "args_or_empty arguments w = new_list [] w"
    by (simp add: args_or_empty_def)
  have c: "contents arguments w = []"
    using False by (auto simp: truthy_ref_def contents_def split: option.splits)
  show ?thesis
    using assms False
    by (cases "profiles_dir self")
       (auto simp: assemble_run_args_def ao c new_list_def list_iadd_def Let_def)
qed

lemma assemble_run_args_members:
  assumes "args self < next_ref w"
      and "assemble_run_args self command tgt arguments False w = (Inr a, w5)"
  shows "''--no-write-json'' \<in> set (heap w5 a) \<longleftrightarrow>
            command = ''--no-write-json'' \<or> ''--no-write-json'' \<in> set (contents arguments w) \<or>
            target_or_default tgt (target self) = ''--no-write-json'' \<or>
            project_dir self = ''--no-write-json'' \<or>
            profiles_dir self = Some ''--no-write-json'' \<or>
            ''--no-write-json'' \<in> set (heap w (args self))"
  unfolding assemble_run_args_list[OF assms]
  by (cases "profiles_dir self") auto

text \<open>
  C9, as the code has it. The assembled list is the command, the arguments, the target,
  project-directory and profiles-directory options and the stored arguments. With
  \<open>write_json\<close> set, \<^verbatim>\<open>remove\<close> is applied to that whole list: when \<^verbatim>\<open>--no-write-json\<close>
  is none of its elements the call raises \<^verbatim>\<open>ValueError\<close> and neither the base tool nor a
  subprocess is called; when it is an element, exactly one occurrence (the first) is
  removed and the other elements stay as they are.
\<close>

theorem run_write_json:
  assumes "args self < next_ref w"
      and "assemble_run_args self command tgt arguments False w = (Inr a, w5)"
  shows "(''--no-write-json'' \<in> set (heap w5 a) \<longleftrightarrow>
            command = ''--no-write-json'' \<or> ''--no-write-json'' \<in> set (contents arguments w) \<or>
            target_or_default tgt (target self) = ''--no-write-json'' \<or>
            project_dir self = ''--no-write-json'' \<or>
            profiles_dir self = Some ''--no-write-json'' \<or>
            ''--no-write-json'' \<in> set (heap w (args self))) \<and>
         (''--no-write-json'' \<notin> set (heap w5 a) \<longrightarrow>
            fst (OpenDbtProject_run ext self command tgt arguments use_subprocess True w)
              = Inl (ValueError ''list.remove(x): x not in list'') \<and>
            dbt_calls (snd (snd (OpenDbtProject_run ext self command tgt arguments
                                   use_subprocess True w))) = dbt_calls w \<and>
            subprocess_calls (snd (snd (OpenDbtProject_run ext self command tgt arguments
                                          use_subprocess True w))) = subprocess_calls w) \<and>
         (''--no-write-json'' \<in> set (heap w5 a) \<longrightarrow>
            assemble_run_args self command tgt arguments True w =
              (Inr a, w5\<lparr>heap := (heap w5)(a := remove1 ''--no-write-json'' (heap w5 a))\<rparr>) \<and>
            count_list (remove1 ''--no-write-json'' (heap w5 a)) ''--no-write-json'' + 1
              = count_list (heap w5 a) ''--no-write-json'' \<and>
            length (remove1 ''--no-write-json'' (heap w5 a)) + 1 = length (heap w5 a) \<and>
            filter (\<lambda>s. s \<noteq> ''--no-write-json'') (remove1 ''--no-write-json'' (heap w5 a))
              = filter (\<lambda>s. s \<noteq> ''--no-write-json'') (heap w5 a))"
proof -
  have mem: "''--no-write-json'' \<in> set (heap w5 a) \<longleftrightarrow>
            command = ''--no-write-json'' \<or> ''--no-write-json'' \<in> set (contents arguments w) \<or>
            target_or_default tgt (target self) = ''--no-write-json'' \<or>
            project_dir self = ''--no-write-json'' \<or>
            profiles_dir self = Some ''--no-write-json'' \<or>
            ''--no-write-json'' \<in> set (heap w (args self))"
    by (rule assemble_run_args_members[OF assms])
  note wj = assemble_run_args_write_json[OF assms(2)]
  have calls: "dbt_calls w5 = dbt_calls w" "subprocess_calls w5 = subprocess_calls w"
    using assemble_run_args_calls[of self command tgt arguments False w] assms(2) by simp_all
  have absent: "fst (OpenDbtProject_run ext self command tgt arguments use_subprocess True w)
              = Inl (ValueError ''list.remove(x): x not in list'') \<and>
            dbt_calls (snd (snd (OpenDbtProject_run ext self command tgt arguments
                                   use_subprocess True w))) = dbt_calls w \<and>
            subprocess_calls (snd (snd (OpenDbtProject_run ext self command tgt arguments
                                          use_subprocess True w))) = subprocess_calls w"
    if "''--no-write-json'' \<notin> set (heap w5 a)"
  proof -
    have "assemble_run_args self command tgt arguments True w
            = (Inl (ValueError ''list.remove(x): x not in list''), w5)"
      using wj that by (simp add: list_remove_def)
    then show ?thesis using calls by (simp add: OpenDbtProject_run_def)
  qed
  have present: "assemble_run_args self command tgt arguments True w =
              (Inr a, w5\<lparr>heap := (heap w5)(a := remove1 ''--no-write-json'' (heap w5 a))\<rparr>) \<and>
            count_list (remove1 ''--no-write-json'' (heap w5 a)) ''--no-write-json'' + 1
              = count_list (heap w5 a) ''--no-write-json'' \<and>
            length (remove1 ''--no-write-json'' (heap w5 a)) + 1 = length (heap w5 a) \<and>
            filter (\<lambda>s. s \<noteq> ''--no-write-json'') (remove1 ''--no-write-json'' (heap w5 a))
              = filter (\<lambda>s. s \<noteq> ''--no-write-json'') (heap w5 a)"
    if p: "''--no-write-json'' \<in> set (heap w5 a)"
  proof -
    have 1: "assemble_run_args self command tgt arguments True w =
              (Inr a, w5\<lparr>heap := (heap w5)(a := remove1 ''--no-write-json'' (heap w5 a))\<rparr>)"
      using wj p by (simp add: list_remove_def)
    have 2: "count_list (remove1 x xs) x + 1 = count_list xs x" if "x \<in> set xs"
      for x :: string and xs
      using that by (induction xs) auto
    have 3: "length (remove1 x xs) + 1 = length xs" if "x \<in> set xs" for x :: string and xs
      using that by (simp add: length_remove1) (cases xs; simp)
    have 4: "filter (\<lambda>s. s \<noteq> x) (remove1 x xs) = filter (\<lambda>s. s \<noteq> x) xs"
      for x :: string and xs
      by (induction xs) auto
    from 1 2[OF p] 3[OF p] 4 show ?thesis by simp
  qed
  from mem absent present show ?thesis by blast
qed
theorem run_write_json_witness:
  "args example_project < next_ref example_world \<and>
   fst (OpenDbtProject_run example_ext example_project ''build'' None None False True
          example_world)
     = Inl (ValueError ''list.remove(x): x not in list'') \<and>
   dbt_calls (snd (snd (OpenDbtProject_run example_ext example_project ''build'' None None
                          False True example_world))) = [] \<and>
   assemble_run_args example_project ''build'' None (Some 0) True
       (example_world\<lparr>heap := (heap example_world)(0 := [''run'', ''--no-write-json''])\<rparr>) =
     (Inr 2,
      snd (assemble_run_args example_project ''build'' None (Some 0) False
             (example_world\<lparr>heap := (heap example_world)(0 := [''run'', ''--no-write-json''])\<rparr>))
      \<lparr>heap :=
         (heap (snd (assemble_run_args example_project ''build'' None (Some 0) False
            (example_world\<lparr>heap := (heap example_world)(0 := [''run'', ''--no-write-json''])\<rparr>))))
         (2 := [''build'', ''run'', ''--target'', ''dev'', ''--project-dir'', ''/proj''])\<rparr>)"
proof -
  let ?w = "example_world\<lparr>heap := (heap example_world)(0 := [''run'', ''--no-write-json''])\<rparr>"
  let ?A = "assemble_run_args example_project ''build'' None None False example_world"
  let ?B = "assemble_run_args example_project ''build'' None (Some 0) False ?w"
  have lt: "args example_project < next_ref example_world"
    by (simp add: example_project_def example_world_def)
  have lt2: "args example_project < next_ref ?w"
    by (simp add: example_project_def example_world_def)
  have A: "?A = (Inr 3, snd ?A)"
    by (simp add: assemble_run_args_def args_or_empty_def truthy_ref_def new_list_def
        list_iadd_def Let_def example_project_def example_world_def)
  have hA: "heap (snd ?A) 3 = [''build'', ''--target'', ''dev'', ''--project-dir'', ''/proj'']"
    by (simp add: assemble_run_args_def args_or_empty_def truthy_ref_def new_list_def
        list_iadd_def Let_def target_or_default_def DEFAULT_TARGET_def example_project_def
        example_world_def)
  have B: "?B = (Inr 2, snd ?B)"
    by (simp add: assemble_run_args_def args_or_empty_def truthy_ref_def new_list_def
        list_iadd_def Let_def example_project_def example_world_def)
  have hB: "heap (snd ?B) 2 =
      [''build'', ''run'', ''--no-write-json'', ''--target'', ''dev'', ''--project-dir'', ''/proj'']"
    by (simp add: assemble_run_args_def args_or_empty_def truthy_ref_def new_list_def
        list_iadd_def Let_def target_or_default_def DEFAULT_TARGET_def example_project_def
        example_world_def)
  have cA: "dbt_calls example_world = []"
    by (simp add: example_world_def)
  from run_write_json [OF lt A, where ext = example_ext and use_subprocess = False]
       run_write_json [OF lt2 B, where ext = example_ext and use_subprocess = False]
       lt
  show ?thesis by (simp add: hA hB cA)
qed

text \<open>
  C9 as stated fails: with the target \<^verbatim>\<open>--no-write-json\<close>, the string is neither in the
  arguments nor in the stored arguments, yet \<^verbatim>\<open>remove\<close> finds it as the value of
  \<^verbatim>\<open>--target\<close>, no \<^verbatim>\<open>ValueError\<close> is raised and the base tool is called.
\<close>

theorem run_write_json_counterexample:
  "''--no-write-json'' \<notin> set (contents None example_world) \<and>
   ''--no-write-json'' \<notin> set (heap example_world (args example_project)) \<and>
   fst (OpenDbtProject_run example_ext example_project ''build'' (Some ''--no-write-json'') None
          False True example_world)
     = Inr (Some \<lparr>success = True, exception = None,
                  result = ResultRunExecution [\<lparr>status = ''success'', message = None\<rparr>]\<rparr>) \<and>
   dbt_calls (snd (snd (OpenDbtProject_run example_ext example_project ''build''
                          (Some ''--no-write-json'') None False True example_world)))
     = [[''build'', ''--target'', ''--project-dir'', ''/proj'']]"
proof -
  let ?A = "assemble_run_args example_project ''build'' (Some ''--no-write-json'') None True
              example_world"
  have A: "?A = (Inr 3, snd ?A)"
    by (simp add: assemble_run_args_def args_or_empty_def truthy_ref_def new_list_def
        list_iadd_def list_remove_def Let_def target_or_default_def example_project_def
        example_world_def)
  have hA: "heap (snd ?A) 3 = [''build'', ''--target'', ''--project-dir'', ''/proj'']"
    "dbt_calls (snd ?A) = []"
    by (simp_all add: assemble_run_args_def args_or_empty_def truthy_ref_def new_list_def
        list_iadd_def list_remove_def Let_def target_or_default_def example_project_def
        example_world_def)
  have self1: "cli (fst (log_info example_project (snd ?A)))
                 = example_cli\<lparr>OpenDbtCli.profiles_dir := None\<rparr>"
    by (simp add: log_info_def case_prod_unfold log_def getLogger_def example_project_def)
  have w2: "heap (snd (log_info example_project (snd ?A))) = heap (snd ?A)"
    "dbt_calls (snd (log_info example_project (snd ?A))) = dbt_calls (snd ?A)"
    by (simp_all add: log_info_world)
  have pc: "project_callbacks example_ext (example_cli\<lparr>OpenDbtCli.profiles_dir := None\<rparr>)
     = (Inr [0, 1, 2],
        snd (project_callbacks example_ext (example_cli\<lparr>OpenDbtCli.profiles_dir := None\<rparr>)))"
    by (simp add: project_callbacks_def project_vars_def project_def vars_of_def truthy_def
        example_ext_def example_cli_def)
  have ne: "heap (snd (log_info example_project (snd ?A))) 3 \<noteq> []"
    by (simp add: w2 hA)
  have inv: "fst (invoke example_ext (example_cli\<lparr>OpenDbtCli.profiles_dir := None\<rparr>) (Some 3)
                    None (snd (log_info example_project (snd ?A))))
       = Inr \<lparr>success = True, exception = None,
              result = ResultRunExecution [\<lparr>status = ''success'', message = None\<rparr>]\<rparr>"
    "dbt_calls (snd (snd (invoke example_ext (example_cli\<lparr>OpenDbtCli.profiles_dir := None\<rparr>)
                    (Some 3) None (snd (log_info example_project (snd ?A))))))
       = [[''build'', ''--target'', ''--project-dir'', ''/proj'']]"
    unfolding invoke_nonempty[OF pc ne]
    by (simp_all add: Let_def w2 hA OpenDbtCli_run_outcome dbt_calls_OpenDbtCli_run
        example_cli_def example_ext_def)
  have run: "OpenDbtProject_run example_ext example_project ''build'' (Some ''--no-write-json'')
               None False True example_world =
      (case invoke example_ext (cli (fst (log_info example_project (snd ?A)))) (Some 3) None
              (snd (log_info example_project (snd ?A))) of
         (r, cli1, w3) \<Rightarrow>
           (case r of Inl e \<Rightarrow> Inl e | Inr res \<Rightarrow> Inr (Some res),
            (fst (log_info example_project (snd ?A)))\<lparr>cli := cli1\<rparr>, w3))"
    by (subst OpenDbtProject_run_def, subst A) (simp add: case_prod_unfold)
  have c: "''--no-write-json'' \<notin> set (contents None example_world)"
    "''--no-write-json'' \<notin> set (heap example_world (args example_project))"
    by (simp_all add: contents_def example_world_def example_project_def)
  show ?thesis
    unfolding run self1 using inv c by (simp add: case_prod_unfold)
qed

end
